theory Spec2Isabelle
  imports Complex_Main "HOL-Library.AList" "HOL-Library.Multiset" "HOL-Library.Product_Lexorder"
begin


section \<open>Python strings and values\<close>

text \<open>
  A Python \<open>str\<close> is a sequence of code points. A \<^typ>\<open>char\<close> stands for a code point
  below 256 (Latin-1), which covers every character of the field names of the parser:
  \<open>CHR 0xF3\<close> is the letter o with acute accent of "medicion", and so on. Code points
  from 256 on are outside the model.
\<close>

definition py_isspace :: "char \<Rightarrow> bool" where
  \<comment> \<open>\<open>str.isspace\<close> on one code point below 256.\<close>
  "py_isspace c = (of_char c \<in> {9, 10, 11, 12, 13, 28, 29, 30, 31, 32, 133, 160 :: nat})"

definition py_strip :: "string \<Rightarrow> string" where
  \<comment> \<open>\<open>s.strip()\<close>: leading and trailing whitespace removed.\<close>
  "py_strip s = rev (dropWhile py_isspace (rev (dropWhile py_isspace s)))"

definition py_lower_char :: "char \<Rightarrow> char" where
  "py_lower_char c =
     (let n = (of_char c :: nat)
      in if (65 \<le> n \<and> n \<le> 90) \<or> (192 \<le> n \<and> n \<le> 222 \<and> n \<noteq> 215)
         then char_of (n + 32) else c)"

definition py_lower :: "string \<Rightarrow> string" where
  \<comment> \<open>\<open>s.lower()\<close>.\<close>
  "py_lower s = map py_lower_char s"

definition py_replace :: "char \<Rightarrow> string \<Rightarrow> string \<Rightarrow> string" where
  \<comment> \<open>\<open>s.replace(c, r)\<close> for a one-character pattern \<open>c\<close>: every occurrence is replaced.\<close>
  "py_replace c r s = concat (map (\<lambda>x. if x = c then r else [x]) s)"

definition basename :: "string \<Rightarrow> string" where
  \<comment> \<open>\<open>os.path.basename\<close> (POSIX): what follows the last slash.\<close>
  "basename p = rev (takeWhile (\<lambda>c. c \<noteq> CHR ''/'') (rev p))"

text \<open>
  The values a measurement dictionary holds: the decoded fields are strings, \<open>"row"\<close> is
  an integer and \<open>"raw_data"\<close> the list of tokens of the row.
\<close>

datatype pyval = PStr string | PInt int | PList "string list"

text \<open>
  A \<open>dict\<close> keeps its keys in insertion order; assigning to a key that is present
  replaces the value in place and assigning to a new key appends it. This is
  \<^const>\<open>AList.update\<close> on an association list, looked up with \<^const>\<open>map_of\<close>.
\<close>

type_synonym measurement = "(string \<times> pyval) list"

section \<open>The code table\<close>

definition o_acute :: char where "o_acute = CHR 0xF3"
definition e_acute :: char where "e_acute = CHR 0xE9"
definition u_acute :: char where "u_acute = CHR 0xFA"
definition I_acute :: char where "I_acute = CHR 0xCD"

definition f_fecha :: string where
  "f_fecha = ''Fecha de medici'' @ [o_acute] @ ''n''"
definition f_hora :: string where
  "f_hora = ''Hora de medici'' @ [o_acute] @ ''n''"
definition f_genero :: string where
  "f_genero = ''G'' @ [e_acute] @ ''nero''"
definition f_masa :: string where
  "f_masa = ''Masa corporal (kg)''"
definition f_imc :: string where
  "f_imc = [I_acute] @ ''ndice de masa corporal (IMC)''"
definition f_grasa :: string where
  "f_grasa = ''Grasa corporal total %''"
definition f_musculo :: string where
  "f_musculo = ''M'' @ [u_acute] @ ''sculo corporal total %''"
definition f_agua :: string where
  "f_agua = ''Agua corporal total %''"
definition f_visceral :: string where
  "f_visceral = [I_acute] @ ''ndice de grasa visceral''"
definition f_edad_metabolica :: string where
  "f_edad_metabolica = ''Edad metab'' @ [o_acute] @ ''lica estimada''"
definition f_icd :: string where
  "f_icd = ''Ingesta cal'' @ [o_acute] @ ''rica diaria (ICD)''"

definition TANITA_MAPPINGS :: "(string \<times> string) list" where
  "TANITA_MAPPINGS =
    [(''0'', ''Desconocido: 16''),
     (''~0'', ''Unidad de longitud''),
     (''~1'', ''Unidad de masa''),
     (''~2'', ''Desconocido: 4''),
     (''~3'', ''Desconocido: 3''),
     (''Bt'', ''Modo atleta (0=Normal, 2=Atleta)''),
     (''Wk'', f_masa),
     (''MI'', f_imc),
     (''MO'', ''Modelo''),
     (''DT'', f_fecha),
     (''Ti'', f_hora),
     (''GE'', f_genero),
     (''AG'', ''Edad''),
     (''Hm'', ''Altura (cm)''),
     (''AL'', ''Nivel de actividad''),
     (''FW'', f_grasa),
     (''Fr'', ''Grasa del brazo (derecho) %''),
     (''Fl'', ''Grasa del brazo (izquierdo) %''),
     (''FR'', ''Grasa de la pierna (derecha) %''),
     (''FL'', ''Grasa de la pierna (izquierda) %''),
     (''FT'', ''Grasa del torso %''),
     (''mW'', f_musculo),
     (''mr'', ''M'' @ [u_acute] @ ''sculo del brazo (derecho) %''),
     (''ml'', ''M'' @ [u_acute] @ ''sculo del brazo (izquierdo) %''),
     (''mR'', ''M'' @ [u_acute] @ ''sculo de la pierna (derecha) %''),
     (''mL'', ''M'' @ [u_acute] @ ''sculo de la pierna (izquierda) %''),
     (''mT'', ''M'' @ [u_acute] @ ''sculo del torso %''),
     (''bw'', ''Masa '' @ [o_acute] @ ''sea estimada (kg)''),
     (''IF'', f_visceral),
     (''rA'', f_edad_metabolica),
     (''rD'', f_icd),
     (''ww'', f_agua),
     (''CS'', ''Desconocido: BC'')]"

section \<open>The row decoder\<close>

definition field_key :: "string \<Rightarrow> string" where
  \<comment> \<open>The key a stripped header is stored under: lines 110 to 113.\<close>
  "field_key header =
     (case map_of TANITA_MAPPINGS header of
        Some name \<Rightarrow> name
      | None \<Rightarrow> ''Unknown_'' @ header)"

definition pair_indices :: "nat \<Rightarrow> nat list" where
  \<comment> \<open>\<open>range(0, n - 1, 2)\<close>: the even indices below \<open>n - 1\<close>.\<close>
  "pair_indices n = map (\<lambda>k. 2 * k) [0 ..< n div 2]"

definition header_at :: "string list \<Rightarrow> nat \<Rightarrow> string" where
  "header_at row i = py_strip (row ! i)"

definition value_at :: "string list \<Rightarrow> nat \<Rightarrow> string" where
  "value_at row i = (if i + 1 < length row then py_strip (row ! (i + 1)) else '''')"

definition store_pair :: "string list \<Rightarrow> measurement \<Rightarrow> nat \<Rightarrow> measurement" where
  \<comment> \<open>The body of the loop of \<open>_parse_measurement_row\<close> at index \<open>i\<close>.\<close>
  "store_pair row m i =
     AList.update (field_key (header_at row i)) (PStr (value_at row i)) m"

definition new_measurement :: "string list \<Rightarrow> string \<Rightarrow> nat \<Rightarrow> measurement" where
  "new_measurement row file_path row_num =
     [(''file'', PStr (basename file_path)),
      (''row'', PInt (int row_num + 1)),
      (''raw_data'', PList row)]"

definition decode_row :: "string list \<Rightarrow> string \<Rightarrow> nat \<Rightarrow> measurement" where
  \<comment> \<open>The measurement \<open>_parse_measurement_row\<close> builds before appending it.\<close>
  "decode_row row file_path row_num =
     foldl (store_pair row) (new_measurement row file_path row_num)
       (pair_indices (length row))"

record parser =
  measurements :: "measurement list"
  profiles :: "(string \<times> measurement) list"

definition parse_measurement_row :: "parser \<Rightarrow> string list \<Rightarrow> string \<Rightarrow> nat \<Rightarrow> parser" where
  "parse_measurement_row self row file_path row_num =
     self\<lparr>measurements := measurements self @ [decode_row row file_path row_num]\<rparr>"

section \<open>Ingestion\<close>

fun show_nat :: "nat \<Rightarrow> string" where
  "show_nat n = (if n < 10 then [char_of (48 + n)] else show_nat (n div 10) @ [char_of (48 + n mod 10)])"


definition parse_profile_row :: "parser \<Rightarrow> string list \<Rightarrow> string \<Rightarrow> nat \<Rightarrow> parser" where
  "parse_profile_row self row file_path row_num =
     self\<lparr>profiles :=
       AList.update (basename file_path @ ''_row_'' @ show_nat row_num)
         [(''file'', PStr (basename file_path)),
          (''row'', PInt (int row_num + 1)),
          (''data'', PList row)]
         (profiles self)\<rparr>"

fun parse_rows :: "parser \<Rightarrow> string \<Rightarrow> string \<Rightarrow> nat \<Rightarrow> string list list \<Rightarrow> parser" where
  "parse_rows self file_path file_type row_num [] = self"
| "parse_rows self file_path file_type row_num (row # rows) =
     (if row = [] \<or> length row < 2
      then parse_rows self file_path file_type (row_num + 1) rows
      else if file_type = ''measurement''
      then parse_rows (parse_measurement_row self row file_path row_num)
             file_path file_type (row_num + 1) rows
      else if file_type = ''profile''
      then parse_rows (parse_profile_row self row file_path row_num)
             file_path file_type (row_num + 1) rows
      else parse_rows self file_path file_type (row_num + 1) rows)"

definition parse_csv_file :: "parser \<Rightarrow> string \<Rightarrow> string \<Rightarrow> string list list option \<Rightarrow> parser" where
  "parse_csv_file self file_path file_type content =
     (case content of
        None \<Rightarrow> self
      | Some rows \<Rightarrow> parse_rows self file_path file_type 0 rows)"

section \<open>Values as text and as conditions\<close>

definition show_int :: "int \<Rightarrow> string" where
  "show_int i = (if i < 0 then CHR ''-'' # show_nat (nat (- i)) else show_nat (nat i))"

definition hex_digit :: "nat \<Rightarrow> char" where
  "hex_digit n = (if n < 10 then char_of (48 + n) else char_of (87 + n))"

definition repr_char :: "char \<Rightarrow> char \<Rightarrow> string" where
  \<comment> \<open>One character of \<open>repr\<close> of a string quoted with \<open>q\<close>.\<close>
  "repr_char q c =
     (let n = (of_char c :: nat)
      in if c = q \<or> n = 92 then [CHR 0x5C, c]
         else if n = 9 then [CHR 0x5C, CHR ''t'']
         else if n = 10 then [CHR 0x5C, CHR ''n'']
         else if n = 13 then [CHR 0x5C, CHR ''r'']
         else if n < 32 \<or> n = 127 \<or> (128 \<le> n \<and> n \<le> 160) \<or> n = 173
         then [CHR 0x5C, CHR ''x'', hex_digit (n div 16), hex_digit (n mod 16)]
         else [c])"

definition py_repr_str :: "string \<Rightarrow> string" where
  \<comment> \<open>\<open>repr(s)\<close>: single quotes, unless the string has a single quote and no double quote.\<close>
  "py_repr_str s =
     (let q = (if CHR 0x27 \<in> set s \<and> CHR 0x22 \<notin> set s then CHR 0x22 else CHR 0x27)
      in [q] @ concat (map (repr_char q) s) @ [q])"

fun join_comma :: "string list \<Rightarrow> string" where
  "join_comma [] = []"
| "join_comma [x] = x"
| "join_comma (x # y # ys) = x @ '', '' @ join_comma (y # ys)"

fun py_str :: "pyval \<Rightarrow> string" where
  \<comment> \<open>\<open>str(v)\<close>, also what an f-string puts for \<open>{v}\<close>.\<close>
  "py_str (PStr s) = s"
| "py_str (PInt i) = show_int i"
| "py_str (PList l) = ''['' @ join_comma (map py_repr_str l) @ '']''"

definition py_str_opt :: "pyval option \<Rightarrow> string" where
  \<comment> \<open>\<open>str\<close> of the result of \<open>dict.get\<close>, which is \<open>None\<close> for a missing key.\<close>
  "py_str_opt v = (case v of None \<Rightarrow> ''None'' | Some x \<Rightarrow> py_str x)"

fun py_truthy :: "pyval option \<Rightarrow> bool" where
  \<comment> \<open>The value as a condition: \<open>None\<close>, the empty string, zero and the empty list are false.\<close>
  "py_truthy None = False"
| "py_truthy (Some (PStr s)) = (s \<noteq> [])"
| "py_truthy (Some (PInt i)) = (i \<noteq> 0)"
| "py_truthy (Some (PList l)) = (l \<noteq> [])"

section \<open>Dates and times\<close>

text \<open>
  A \<open>datetime\<close> without time zone is its fields year, month, day, hour, minute, second
  (the microsecond is always zero here), compared lexicographically as Python does.
\<close>

type_synonym datetime = "nat \<times> nat \<times> nat \<times> nat \<times> nat \<times> nat"

definition datetime_min :: datetime where
  \<comment> \<open>\<open>datetime.min\<close>: the first of January of the year 1, at midnight.\<close>
  "datetime_min = (1, 1, 1, 0, 0, 0)"

definition is_digit :: "char \<Rightarrow> bool" where
  "is_digit c = (48 \<le> (of_char c :: nat) \<and> (of_char c :: nat) \<le> 57)"

definition digit_val :: "char \<Rightarrow> nat" where
  "digit_val c = of_char c - 48"

definition in_range :: "char \<Rightarrow> char \<Rightarrow> char \<Rightarrow> bool" where
  \<comment> \<open>The character class \<open>[a-b]\<close>.\<close>
  "in_range a b c = ((of_char a :: nat) \<le> of_char c \<and> (of_char c :: nat) \<le> of_char b)"

text \<open>
  \<open>datetime.strptime\<close> turns the format \<open>%d/%m/%Y %H:%M:%S\<close> into the regular expression
  \<^verbatim>\<open>(3[0-1]|[1-2]\d|0[1-9]|[1-9]| [1-9])/(1[0-2]|0[1-9]|[1-9])/(\d\d\d\d)\s+\<close>
  \<^verbatim>\<open>(2[0-3]|[0-1]\d|\d):([0-5]\d|\d):(6[0-1]|[0-5]\d|\d)\<close>
  and matches it at the start of the text. A matcher returns the ways its expression
  matches a prefix, in the order a backtracking matcher tries them, each with the number
  read and the rest of the text.
\<close>

type_synonym matcher = "string \<Rightarrow> (nat \<times> string) list"

definition two :: "(char \<Rightarrow> bool) \<Rightarrow> (char \<Rightarrow> bool) \<Rightarrow> matcher" where
  \<comment> \<open>Two characters of the given classes, read as a number (a space counts as nothing).\<close>
  "two P Q s =
     (case s of
        a # b # r \<Rightarrow>
          if P a \<and> Q b
          then [((if is_digit a then 10 * digit_val a else 0) + digit_val b, r)]
          else []
      | _ \<Rightarrow> [])"

definition one :: "(char \<Rightarrow> bool) \<Rightarrow> matcher" where
  "one P s = (case s of a # r \<Rightarrow> if P a then [(digit_val a, r)] else [] | _ \<Rightarrow> [])"

definition re_d :: matcher where
  "re_d s = two (\<lambda>c. c = CHR ''3'') (in_range CHR ''0'' CHR ''1'') s
          @ two (in_range CHR ''1'' CHR ''2'') is_digit s
          @ two (\<lambda>c. c = CHR ''0'') (in_range CHR ''1'' CHR ''9'') s
          @ one (in_range CHR ''1'' CHR ''9'') s
          @ two (\<lambda>c. c = CHR '' '') (in_range CHR ''1'' CHR ''9'') s"

definition re_m :: matcher where
  "re_m s = two (\<lambda>c. c = CHR ''1'') (in_range CHR ''0'' CHR ''2'') s
          @ two (\<lambda>c. c = CHR ''0'') (in_range CHR ''1'' CHR ''9'') s
          @ one (in_range CHR ''1'' CHR ''9'') s"

definition re_Y :: matcher where
  "re_Y s =
     (case s of
        a # b # c # d # r \<Rightarrow>
          if is_digit a \<and> is_digit b \<and> is_digit c \<and> is_digit d
          then [(1000 * digit_val a + 100 * digit_val b + 10 * digit_val c + digit_val d, r)]
          else []
      | _ \<Rightarrow> [])"

definition re_H :: matcher where
  "re_H s = two (\<lambda>c. c = CHR ''2'') (in_range CHR ''0'' CHR ''3'') s
          @ two (in_range CHR ''0'' CHR ''1'') is_digit s
          @ one is_digit s"

definition re_M :: matcher where
  "re_M s = two (in_range CHR ''0'' CHR ''5'') is_digit s
          @ one is_digit s"

definition re_S :: matcher where
  "re_S s = two (\<lambda>c. c = CHR ''6'') (in_range CHR ''0'' CHR ''1'') s
          @ two (in_range CHR ''0'' CHR ''5'') is_digit s
          @ one is_digit s"

definition lit :: "char \<Rightarrow> string \<Rightarrow> string list" where
  \<comment> \<open>A literal character of the format.\<close>
  "lit c s = (case s of a # r \<Rightarrow> if a = c then [r] else [] | _ \<Rightarrow> [])"

fun spaces_plus :: "string \<Rightarrow> string list" where
  \<comment> \<open>\<open>\s+\<close>, greedy: the longest run of whitespace first, then the shorter ones.\<close>
  "spaces_plus [] = []"
| "spaces_plus (a # r) = (if py_isspace a then spaces_plus r @ [r] else [])"

definition regex_matches :: "string \<Rightarrow> ((nat \<times> nat \<times> nat \<times> nat \<times> nat \<times> nat) \<times> string) list" where
  \<comment> \<open>All matches of the whole expression: fields in the order of the format, and the rest.\<close>
  "regex_matches s =
     [((d, m, y, H, M, S), r11).
        (d, r1) \<leftarrow> re_d s, r2 \<leftarrow> lit CHR ''/'' r1,
        (m, r3) \<leftarrow> re_m r2, r4 \<leftarrow> lit CHR ''/'' r3,
        (y, r5) \<leftarrow> re_Y r4, r6 \<leftarrow> spaces_plus r5,
        (H, r7) \<leftarrow> re_H r6, r8 \<leftarrow> lit CHR '':'' r7,
        (M, r9) \<leftarrow> re_M r8, r10 \<leftarrow> lit CHR '':'' r9,
        (S, r11) \<leftarrow> re_S r10]"

definition is_leap :: "nat \<Rightarrow> bool" where
  "is_leap y = (y mod 4 = 0 \<and> (y mod 100 \<noteq> 0 \<or> y mod 400 = 0))"

definition days_in_month :: "nat \<Rightarrow> nat \<Rightarrow> nat" where
  "days_in_month y m =
     (if m = 2 then (if is_leap y then 29 else 28)
      else if m \<in> {4, 6, 9, 11} then 30 else 31)"

definition strptime :: "string \<Rightarrow> datetime option" where
  \<comment> \<open>\<open>datetime.strptime(s, "%d/%m/%Y %H:%M:%S")\<close>; \<open>None\<close> stands for the \<open>ValueError\<close>:
      no match, text left after the first match, the year 0, a day the month does not
      have, or a second of 60 or 61.\<close>
  "strptime s =
     (case regex_matches s of
        [] \<Rightarrow> None
      | ((d, m, y, H, M, S), rest) # _ \<Rightarrow>
          if rest \<noteq> [] then None
          else if y < 1 \<or> d < 1 \<or> days_in_month y m < d \<or> 59 < S then None
          else Some (y, m, d, H, M, S))"

section \<open>The chronological sorter\<close>

definition parse_datetime :: "measurement \<Rightarrow> datetime" where
  \<comment> \<open>The sort key: lines 130 to 139.\<close>
  "parse_datetime measurement =
     (let fecha = map_of measurement f_fecha;
          hora = map_of measurement f_hora
      in if py_truthy fecha \<and> py_truthy hora
         then (case strptime (py_str_opt fecha @ '' '' @ py_str_opt hora) of
                 Some t \<Rightarrow> t
               | None \<Rightarrow> datetime_min)
         else datetime_min)"

definition py_sorted :: "('a \<Rightarrow> 'k::linorder) \<Rightarrow> 'a list \<Rightarrow> 'a list" where
  \<comment> \<open>\<open>sorted(xs, key=f)\<close>: ascending by key and stable, which determines the result;
      insertion by key from the right computes it.\<close>
  "py_sorted f xs = sort_key f xs"

definition get_sorted_measurements :: "parser \<Rightarrow> measurement list" where
  "get_sorted_measurements self = py_sorted parse_datetime (measurements self)"

section \<open>The report\<close>

definition section_title :: "nat \<Rightarrow> measurement \<Rightarrow> string" where
  \<comment> \<open>The heading of line 433, for the index \<open>i\<close> of \<open>enumerate\<close>.\<close>
  "section_title i m =
     ''Medici'' @ [o_acute] @ ''n '' @ show_nat (i + 1) @ '' - '' @
     (case map_of m ''file'' of None \<Rightarrow> ''Archivo desconocido'' | Some v \<Rightarrow> py_str v)"

definition report_sections :: "parser \<Rightarrow> (string \<times> measurement) list" where
  \<comment> \<open>The loop of line 430: one section for each element of \<open>self.measurements\<close>, in the
      order of that list; a section is its heading and the measurement it renders.\<close>
  "report_sections self =
     map (\<lambda>(i, m). (section_title i m, m)) (enumerate 0 (measurements self))"

definition comparison_pair :: "parser \<Rightarrow> (measurement \<times> measurement) option" where
  \<comment> \<open>Lines 751 to 764: the previous and the last measurement of the sorted list, when it
      has two elements at least.\<close>
  "comparison_pair self =
     (let sorted_measurements = get_sorted_measurements self;
          n = length sorted_measurements
      in if 2 \<le> n
         then Some (sorted_measurements ! (n - 2), sorted_measurements ! (n - 1))
         else None)"

section \<open>Floating-point numbers\<close>

text \<open>
  A Python \<open>float\<close> is an IEEE 754 binary64 number. A finite one is the rational number
  it denotes (zero with the sign bit set is kept apart), and an operation rounds its exact
  result to the nearest representable number, ties to the even significand.
\<close>

datatype pyfloat = Finite rat | NegZero | PosInf | NegInf | NaN

definition pow2 :: "int \<Rightarrow> rat" where
  "pow2 k = (if 0 \<le> k then 2 ^ nat k else 1 / 2 ^ nat (- k))"

function bit_length :: "int \<Rightarrow> int" where
  \<comment> \<open>The number of binary digits of a positive integer.\<close>
  "bit_length n = (if n \<le> 0 then 0 else 1 + bit_length (n div 2))"
  by pat_completeness auto
termination
  by (relation "measure nat") auto

function show_digits :: "int \<Rightarrow> string" where
  \<comment> \<open>The decimal digits of a non-negative integer.\<close>
  "show_digits n =
     (if n < 10 then [char_of (48 + nat n)]
      else show_digits (n div 10) @ [char_of (48 + nat (n mod 10))])"
  by pat_completeness auto
termination
  by (relation "measure nat") auto

declare bit_length.simps [simp del] show_digits.simps [simp del]

definition floor_log2 :: "rat \<Rightarrow> int" where
  \<comment> \<open>For \<open>a > 0\<close>, the exponent \<open>e\<close> with \<open>2 ^ e \<le> a < 2 ^ (e + 1)\<close>.\<close>
  "floor_log2 a =
     (let (p, q) = quotient_of a;
          k = bit_length p - bit_length q
      in if pow2 k \<le> a then k else k - 1)"

definition round_half_even :: "rat \<Rightarrow> int" where
  "round_half_even x =
     (let f = \<lfloor>x\<rfloor>; d = x - of_int f
      in if d < 1 / 2 then f
         else if 1 / 2 < d then f + 1
         else if even f then f else f + 1)"

definition round_double :: "rat \<Rightarrow> pyfloat" where
  \<comment> \<open>The binary64 number nearest to \<open>x\<close>: a significand \<open>m\<close> of 53 bits at most and
      an exponent from -1022 (below that the spacing stays \<open>2 ^ -1074\<close>); a result of
      \<open>2 ^ 1024\<close> or more is infinite.\<close>
  "round_double x =
     (if x = 0 then Finite 0
      else
        let a = \<bar>x\<bar>;
            e = max (floor_log2 a) (- 1022);
            ulp = pow2 (e - 52);
            m = round_half_even (a / ulp)
        in if m = 0 then (if x < 0 then NegZero else Finite 0)
           else if 1024 \<le> e \<or> (e = 1023 \<and> m = 2 ^ 53) then (if x < 0 then NegInf else PosInf)
           else Finite ((if x < 0 then - 1 else 1) * of_int m * ulp))"

subsection \<open>Reading a number: \<open>float(s)\<close>\<close>

definition float_transform :: "char \<Rightarrow> char" where
  \<comment> \<open>Before parsing, a non-ASCII whitespace character becomes a space and any other
      character from 127 on a question mark.\<close>
  "float_transform c =
     (if (of_char c :: nat) < 127 then c
      else if py_isspace c then CHR '' '' else CHR ''?'')"

definition c_isspace :: "char \<Rightarrow> bool" where
  "c_isspace c = (of_char c \<in> {9, 10, 11, 12, 13, 32 :: nat})"

definition c_strip :: "string \<Rightarrow> string" where
  "c_strip s = rev (dropWhile c_isspace (rev (dropWhile c_isspace s)))"

fun underscores_ok :: "char \<Rightarrow> string \<Rightarrow> bool" where
  \<comment> \<open>An underscore is allowed only between two digits; \<open>prev\<close> is the character before.\<close>
  "underscores_ok prev [] = (prev \<noteq> CHR ''_'')"
| "underscores_ok prev (c # cs) =
     ((if c = CHR ''_'' then is_digit prev else (prev = CHR ''_'' \<longrightarrow> is_digit c))
      \<and> underscores_ok c cs)"

definition ascii_lower :: "char \<Rightarrow> char" where
  "ascii_lower c =
     (if 65 \<le> (of_char c :: nat) \<and> (of_char c :: nat) \<le> 90 then char_of (of_char c + 32 :: nat) else c)"

definition split_sign :: "string \<Rightarrow> bool \<times> string" where
  \<comment> \<open>An optional sign: whether it is a minus, and what follows.\<close>
  "split_sign s =
     (case s of
        [] \<Rightarrow> (False, [])
      | c # r \<Rightarrow> if c = CHR ''-'' then (True, r) else if c = CHR ''+'' then (False, r) else (False, s))"

definition digits_value :: "string \<Rightarrow> int" where
  "digits_value ds = foldl (\<lambda>n c. 10 * n + int (digit_val c)) 0 ds"

definition pow10 :: "int \<Rightarrow> rat" where
  "pow10 k = (if 0 \<le> k then 10 ^ nat k else 1 / 10 ^ nat (- k))"

definition parse_decimal :: "string \<Rightarrow> rat option" where
  \<comment> \<open>An unsigned decimal number: digits, an optional point and digits (one digit at
      least in all), an optional exponent; the whole text must be used.\<close>
  "parse_decimal s =
     (let ip = takeWhile is_digit s;
          r1 = dropWhile is_digit s;
          fp = (case r1 of c # r \<Rightarrow> if c = CHR ''.'' then takeWhile is_digit r else [] | [] \<Rightarrow> []);
          r2 = (case r1 of c # r \<Rightarrow> if c = CHR ''.'' then dropWhile is_digit r else r1 | [] \<Rightarrow> [])
      in if ip = [] \<and> fp = [] then None
         else
           let m = of_int (digits_value (ip @ fp)) * pow10 (- int (length fp))
           in (case r2 of
                 [] \<Rightarrow> Some m
               | c # r3 \<Rightarrow>
                   if c = CHR ''e'' \<or> c = CHR ''E''
                   then (let (eneg, ds) = split_sign r3
                         in if ds \<noteq> [] \<and> list_all is_digit ds
                            then Some (m * pow10 (if eneg then - digits_value ds
                                                  else digits_value ds))
                            else None)
                   else None))"

definition parse_float_body :: "string \<Rightarrow> pyfloat option" where
  \<comment> \<open>A sign, then \<open>inf\<close>, \<open>infinity\<close> or \<open>nan\<close> in any case, or a decimal number.\<close>
  "parse_float_body s =
     (let (neg, r) = split_sign s;
          w = map ascii_lower r
      in if w = ''inf'' \<or> w = ''infinity'' then Some (if neg then NegInf else PosInf)
         else if w = ''nan'' then Some NaN
         else (case parse_decimal r of
                 None \<Rightarrow> None
               | Some m \<Rightarrow>
                   if m = 0 then Some (if neg then NegZero else Finite 0)
                   else Some (round_double (if neg then - m else m))))"

definition py_float :: "string \<Rightarrow> pyfloat option" where
  \<comment> \<open>\<open>float(s)\<close> for a string; \<open>None\<close> stands for the \<open>ValueError\<close>.\<close>
  "py_float s =
     (let t = c_strip (map float_transform s)
      in if CHR ''_'' \<in> set t
         then (if underscores_ok (CHR 0x00) t
               then parse_float_body (filter (\<lambda>c. c \<noteq> CHR ''_'') t)
               else None)
         else parse_float_body t)"

subsection \<open>Arithmetic, comparison and formatting\<close>

fun is_nan :: "pyfloat \<Rightarrow> bool" where
  "is_nan NaN = True"
| "is_nan _ = False"

fun rank :: "pyfloat \<Rightarrow> int \<times> rat" where
  \<comment> \<open>The position of a number that is not NaN on the extended line.\<close>
  "rank NegInf = (- 1, 0)"
| "rank PosInf = (1, 0)"
| "rank (Finite r) = (0, r)"
| "rank NegZero = (0, 0)"
| "rank NaN = (0, 0)"

definition flt :: "pyfloat \<Rightarrow> pyfloat \<Rightarrow> bool" where
  \<comment> \<open>\<open>a < b\<close>: false when either is NaN.\<close>
  "flt a b = (\<not> is_nan a \<and> \<not> is_nan b \<and> rank a < rank b)"

definition fgt :: "pyfloat \<Rightarrow> pyfloat \<Rightarrow> bool" where
  "fgt a b = flt b a"

fun fabs :: "pyfloat \<Rightarrow> pyfloat" where
  "fabs (Finite r) = Finite \<bar>r\<bar>"
| "fabs NegZero = Finite 0"
| "fabs NegInf = PosInf"
| "fabs PosInf = PosInf"
| "fabs NaN = NaN"

fun fsub :: "pyfloat \<Rightarrow> pyfloat \<Rightarrow> pyfloat" where
  \<comment> \<open>\<open>a - b\<close>.\<close>
  "fsub NaN _ = NaN"
| "fsub _ NaN = NaN"
| "fsub PosInf PosInf = NaN"
| "fsub NegInf NegInf = NaN"
| "fsub PosInf _ = PosInf"
| "fsub NegInf _ = NegInf"
| "fsub _ PosInf = NegInf"
| "fsub _ NegInf = PosInf"
| "fsub a b =
     (let d = snd (rank a) - snd (rank b)
      in if d = 0 then (if a = NegZero \<and> b \<noteq> NegZero then NegZero else Finite 0)
         else round_double d)"

definition float_of_decimal :: "rat \<Rightarrow> pyfloat" where
  \<comment> \<open>A non-negative literal of the source, such as \<open>0.1\<close>.\<close>
  "float_of_decimal x = round_double x"

fun format_plus_1f :: "pyfloat \<Rightarrow> string" where
  \<comment> \<open>The format \<open>+.1f\<close>: a sign always, then the number rounded to one decimal.\<close>
  "format_plus_1f NaN = ''+nan''"
| "format_plus_1f PosInf = ''+inf''"
| "format_plus_1f NegInf = ''-inf''"
| "format_plus_1f NegZero = ''-0.0''"
| "format_plus_1f (Finite r) =
     (let n = round_half_even (\<bar>r\<bar> * 10)
      in (if r < 0 then ''-'' else ''+'') @ show_digits (n div 10) @ ''.'' @ show_digits (n mod 10))"

fun format_1f :: "pyfloat \<Rightarrow> string" where
  \<comment> \<open>The format \<open>.1f\<close>: as \<open>+.1f\<close>, with no sign for a number that is not negative.\<close>
  "format_1f NaN = ''nan''"
| "format_1f PosInf = ''inf''"
| "format_1f NegInf = ''-inf''"
| "format_1f NegZero = ''-0.0''"
| "format_1f (Finite r) =
     (let n = round_half_even (\<bar>r\<bar> * 10)
      in (if r < 0 then ''-'' else '''') @ show_digits (n div 10) @ ''.'' @ show_digits (n mod 10))"

section \<open>The sections of one measurement\<close>

datatype py_error = AttributeError | IndexError | PlottingError

definition resolve_sexo :: "string \<Rightarrow> string" where
  \<comment> \<open>Lines 535 to 541, from the string \<open>get\<close> returned.\<close>
  "resolve_sexo g =
     (let genero = py_lower g
      in if genero \<in> set [''1'', ''hombre'', ''m'', ''male''] then ''hombre''
         else if genero \<in> set [''2'', ''mujer'', ''f'', ''female''] then ''mujer''
         else ''otro'')"

definition sexo_of :: "measurement \<Rightarrow> py_error + string" where
  \<comment> \<open>\<open>measurement.get(key, "").lower()\<close> and the choice of the category; a value
      that is not a string has no method \<open>lower\<close>.\<close>
  "sexo_of measurement =
     (case map_of measurement f_genero of
        None \<Rightarrow> Inr (resolve_sexo '''')
      | Some (PStr s) \<Rightarrow> Inr (resolve_sexo s)
      | Some _ \<Rightarrow> Inl AttributeError)"

text \<open>
  The numeric value of a field is computed where it is used, inside a \<open>try\<close> whose
  handler gives \<open>None\<close>. The five sites of the sections follow, as the source writes them.
\<close>

definition grasa_value :: "measurement \<Rightarrow> pyfloat option" where
  \<comment> \<open>Lines 543 to 547.\<close>
  "grasa_value measurement =
     py_float (py_replace CHR '','' ''.'' (py_replace CHR ''%'' ''''
       (py_str_opt (map_of measurement f_grasa))))"

definition imc_value :: "measurement \<Rightarrow> pyfloat option" where
  \<comment> \<open>Lines 572 to 576: the percent sign is not removed.\<close>
  "imc_value measurement =
     py_float (py_replace CHR '','' ''.'' (py_str_opt (map_of measurement f_imc)))"

definition musc_value :: "measurement \<Rightarrow> pyfloat option" where
  \<comment> \<open>Lines 587 to 591.\<close>
  "musc_value measurement =
     py_float (py_replace CHR '','' ''.'' (py_replace CHR ''%'' ''''
       (py_str_opt (map_of measurement f_musculo))))"

definition agua_value :: "measurement \<Rightarrow> pyfloat option" where
  \<comment> \<open>Lines 616 to 620.\<close>
  "agua_value measurement =
     py_float (py_replace CHR '','' ''.'' (py_replace CHR ''%'' ''''
       (py_str_opt (map_of measurement f_agua))))"

definition visceral_value :: "measurement \<Rightarrow> pyfloat option" where
  \<comment> \<open>Lines 645 to 649: the percent sign is not removed.\<close>
  "visceral_value measurement =
     py_float (py_replace CHR '','' ''.'' (py_str_opt (map_of measurement f_visceral)))"

text \<open>
  The two expressions these sites, and those of the comparison, apply to the text of a
  value.
\<close>

definition float_without_percent :: "string \<Rightarrow> pyfloat option" where
  \<comment> \<open>The expression \<open>float(s.replace("%", "").replace(",", "."))\<close> of the sites that remove
      the percent sign.\<close>
  "float_without_percent s = py_float (py_replace CHR '','' ''.'' (py_replace CHR ''%'' '''' s))"

definition float_with_comma :: "string \<Rightarrow> pyfloat option" where
  \<comment> \<open>The expression \<open>float(s.replace(",", "."))\<close> of the two other sites.\<close>
  "float_with_comma s = py_float (py_replace CHR '','' ''.'' s)"

subsection \<open>The coloured bar\<close>

text \<open>
  \<open>_plot_colored_bar\<close> asks the plotting library for a horizontal bar for each range and
  colour, from the lower bound and as wide as the range, with the label above its
  middle; then for a vertical line at the value, with the value as text below, for the
  title and for the limits of the axis; then it saves the image. What the library is
  given is kept as a record. The bounds of the tables are integers or halves, so the
  widths and middles are exact. The library is not part of the source: its calls, up to
  \<open>savefig\<close>, are a parameter \<open>draw\<close> that returns the name of the image, or \<open>None\<close> when
  one of the calls raises.
\<close>

record bar =
  bar_left :: rat
  bar_width :: rat
  bar_color :: string
  bar_label :: string
  bar_label_x :: rat

record colored_bar =
  bars :: "bar list"
  value_line :: pyfloat
  value_text :: string
  bar_title :: string
  xlim :: "rat \<times> rat"

definition colored_bar_figure ::
  "pyfloat \<Rightarrow> (rat \<times> rat) list \<Rightarrow> string list \<Rightarrow> string list \<Rightarrow> string \<Rightarrow> string \<Rightarrow> colored_bar option" where
  \<comment> \<open>What lines 169 to 183 hand to the library; \<open>None\<close> when \<open>labels[i]\<close> or \<open>ranges[0]\<close>
      is out of range.\<close>
  "colored_bar_figure v ranges bar_colors labels title units =
     (if length labels < length (zip ranges bar_colors) \<or> ranges = [] then None
      else Some
        \<lparr>bars = map (\<lambda>(i, (r, c)).
                  \<lparr>bar_left = fst r, bar_width = snd r - fst r, bar_color = c,
                   bar_label = labels ! i, bar_label_x = (fst r + snd r) / 2\<rparr>)
                (enumerate 0 (zip ranges bar_colors)),
         value_line = v,
         value_text = format_1f v @ units,
         bar_title = title,
         xlim = (fst (hd ranges), snd (last ranges))\<rparr>)"

definition plot_colored_bar ::
  "(colored_bar \<Rightarrow> string option) \<Rightarrow> pyfloat \<Rightarrow> (rat \<times> rat) list \<Rightarrow> string list \<Rightarrow> string list \<Rightarrow>
     string \<Rightarrow> string \<Rightarrow> py_error + string" where
  \<comment> \<open>The result of \<open>_plot_colored_bar\<close>: the name of the image, or the exception that
      leaves it. Nothing in it, or in its caller, catches an exception. When a subscript
      is out of range the function raises whatever the library does; the error is then
      given as \<open>IndexError\<close>.\<close>
  "plot_colored_bar draw v ranges bar_colors labels title units =
     (case colored_bar_figure v ranges bar_colors labels title units of
        None \<Rightarrow> Inl IndexError
      | Some fig \<Rightarrow>
          (case draw fig of
             None \<Rightarrow> Inl PlottingError
           | Some name \<Rightarrow> Inr name))"

definition O_acute :: char where "O_acute = CHR 0xD3"

definition grasa_ranges :: "string \<Rightarrow> (rat \<times> rat) list" where
  \<comment> \<open>Lines 549 to 558.\<close>
  "grasa_ranges sexo =
     (if sexo = ''hombre'' then [(0, 8), (8, 20), (20, 25), (25, 45)]
      else if sexo = ''mujer'' then [(0, 21), (21, 33), (33, 39), (39, 55)]
      else [(0, 10), (10, 20), (20, 30), (30, 50)])"

definition grasa_colors :: "string list" where
  "grasa_colors = [''#b3c6ff'', ''#b6fcb6'', ''#ffe066'', ''#ff9999'']"

definition grasa_labels :: "string list" where
  "grasa_labels = [''Bajo'', [O_acute] @ ''ptimo'', ''Alto'', ''Muy alto'']"

definition grasa_title :: string where
  "grasa_title = ''An'' @ [CHR 0xE1] @ ''lisis de grasa corporal [%]''"

definition grasa_bar ::
  "(colored_bar \<Rightarrow> string option) \<Rightarrow> measurement \<Rightarrow> string \<Rightarrow> (py_error + string) option" where
  \<comment> \<open>Lines 548 to 568: no bar when the value is \<open>None\<close>.\<close>
  "grasa_bar draw measurement sexo =
     (case grasa_value measurement of
        None \<Rightarrow> None
      | Some grasa \<Rightarrow>
          Some (plot_colored_bar draw grasa (grasa_ranges sexo) grasa_colors grasa_labels
                  grasa_title ''%''))"

definition spec_classify :: "(rat \<times> rat) list \<Rightarrow> string list \<Rightarrow> rat \<Rightarrow> string option" where
  \<comment> \<open>The classification the specification describes, for a reading of the table: the
      label of the first range \<open>[lo, hi)\<close> that holds the value. The source has no such
      function.\<close>
  "spec_classify ranges labels x =
     map_option snd (find (\<lambda>(r, l). fst r \<le> x \<and> x < snd r) (zip ranges labels))"

section \<open>The comparison of the last two measurements\<close>

definition comparison_fields :: "(string \<times> string) list" where
  \<comment> \<open>Lines 782 to 791: the compared fields and their units.\<close>
  "comparison_fields =
     [(f_masa, ''kg''),
      (f_imc, ''''),
      (f_grasa, ''%''),
      (f_musculo, ''%''),
      (f_agua, ''%''),
      (f_visceral, ''''),
      (f_edad_metabolica, ''a'' @ [CHR 0xF1] @ ''os''),
      (f_icd, ''kcal'')]"

record difference =
  diff :: pyfloat
  diff_str :: string
  diff_color :: string

definition comparison_diff :: "measurement \<Rightarrow> measurement \<Rightarrow> string \<Rightarrow> string \<Rightarrow> difference option" where
  \<comment> \<open>Lines 794 to 817, for one field of the table; \<open>None\<close> stands for the cell \<open>N/A\<close>.\<close>
  "comparison_diff prev_measurement last_measurement field unit =
     (let val1 = map_of prev_measurement field;
          val2 = map_of last_measurement field
      in if val1 \<noteq> None \<and> val2 \<noteq> None
         then
           (case py_float (py_replace CHR '','' ''.'' (py_replace CHR ''%'' '''' (py_str_opt val1))) of
              None \<Rightarrow> None
            | Some num1 \<Rightarrow>
               (case py_float (py_replace CHR '','' ''.'' (py_replace CHR ''%'' '''' (py_str_opt val2))) of
                  None \<Rightarrow> None
                | Some num2 \<Rightarrow>
                    let d = fsub num2 num1
                    in Some \<lparr>diff = d,
                             diff_str = format_plus_1f d @ unit,
                             diff_color =
                               (if flt (fabs d) (float_of_decimal (1 / 10)) then ''gray''
                                else if fgt d (Finite 0) then ''red''
                                else ''green'')\<rparr>))
         else None)"

record comparison_chart =
  chart_values :: "pyfloat \<times> pyfloat"
  chart_diff :: pyfloat
  chart_diff_text :: string
  chart_diff_shown :: bool

definition comparison_chart_data :: "measurement \<Rightarrow> measurement \<Rightarrow> string \<Rightarrow> string \<Rightarrow> comparison_chart option" where
  \<comment> \<open>What \<open>_plot_comparison_chart\<close> computes of the two values: lines 204 to 215 and 257
      to 262. \<open>None\<close> is where it returns \<open>None\<close> before drawing; the difference is annotated
      in the chart when it is significant.\<close>
  "comparison_chart_data measurement1 measurement2 field_name units =
     (let value1 = map_of measurement1 field_name;
          value2 = map_of measurement2 field_name
      in if value1 = None \<or> value2 = None then None
         else
           (case py_float (py_replace CHR '','' ''.'' (py_replace CHR ''%'' '''' (py_str_opt value1))) of
              None \<Rightarrow> None
            | Some val1 \<Rightarrow>
               (case py_float (py_replace CHR '','' ''.'' (py_replace CHR ''%'' '''' (py_str_opt value2))) of
                  None \<Rightarrow> None
                | Some val2 \<Rightarrow>
                    let d = fsub val2 val1
                    in Some \<lparr>chart_values = (val1, val2),
                             chart_diff = d,
                             chart_diff_text = ''Diferencia: '' @ format_plus_1f d @ units,
                             chart_diff_shown = fgt (fabs d) (float_of_decimal (1 / 10))\<rparr>)))"

definition get_fecha_hora :: "measurement \<Rightarrow> string" where
  \<comment> \<open>The label of a bar of the chart: lines 218 to 221.\<close>
  "get_fecha_hora m =
     (let f = (case map_of m f_fecha of None \<Rightarrow> PStr ''?'' | Some v \<Rightarrow> v);
          h = (case map_of m f_hora of None \<Rightarrow> PStr ''?'' | Some v \<Rightarrow> v)
      in if f \<noteq> PStr ''?'' \<and> h \<noteq> PStr ''?'' then py_str f @ [CHR 0x0A] @ py_str h
         else py_str f)"

definition plot_comparison_chart ::
  "(string \<Rightarrow> string \<times> string \<Rightarrow> comparison_chart \<Rightarrow> string option) \<Rightarrow>
     measurement \<Rightarrow> measurement \<Rightarrow> string \<Rightarrow> string \<Rightarrow> string \<Rightarrow> string option" where
  \<comment> \<open>The result of \<open>_plot_comparison_chart\<close>: the name of the image or \<open>None\<close>. The whole
      body is inside a \<open>try\<close> whose handler returns \<open>None\<close> (lines 202 and 297 to 299), so
      an exception of the plotting library gives \<open>None\<close> too. The calls to the library,
      with the title, the two labels and the values, are the parameter \<open>draw\<close>: the name
      of the image, or \<open>None\<close> when one of them raises.\<close>
  "plot_comparison_chart draw measurement1 measurement2 field_name title units =
     (case comparison_chart_data measurement1 measurement2 field_name units of
        None \<Rightarrow> None
      | Some c \<Rightarrow> draw title (get_fecha_hora measurement1, get_fecha_hora measurement2) c)"

definition comparison_table :: "parser \<Rightarrow> (string \<times> difference option) list option" where
  \<comment> \<open>The rows of the table of lines 793 to 826, for the pair of the sorted list.\<close>
  "comparison_table self =
     (case comparison_pair self of
        None \<Rightarrow> None
      | Some (prev_measurement, last_measurement) \<Rightarrow>
          Some (map (\<lambda>(field, unit).
                  (field, comparison_diff prev_measurement last_measurement field unit))
                comparison_fields))"

definition imc_comparison ::
  "(string \<Rightarrow> string \<times> string \<Rightarrow> comparison_chart \<Rightarrow> string option) \<Rightarrow> parser \<Rightarrow> string option" where
  \<comment> \<open>Lines 880 to 886.\<close>
  "imc_comparison draw self =
     (case comparison_pair self of
        None \<Rightarrow> None
      | Some (prev_measurement, last_measurement) \<Rightarrow>
          plot_comparison_chart draw prev_measurement last_measurement f_imc
            (''Evoluci'' @ [o_acute] @ ''n del '' @ [I_acute] @ ''ndice de Masa Corporal'')
            ('' kg/m'' @ [CHR 0xB2]))"

section \<open>The normalisation the specification describes\<close>

definition spec_to_number :: "string \<Rightarrow> pyfloat option" where
  \<comment> \<open>Written from the specification, for comparison with the sites: one trailing percent
      sign is removed if present, commas become points, and the text is parsed.\<close>
  "spec_to_number raw =
     py_float (py_replace CHR '','' ''.''
       (if raw \<noteq> [] \<and> last raw = CHR ''%'' then butlast raw else raw))"

section \<open>Sample inputs\<close>

definition sample_jan1 :: measurement where
  "sample_jan1 = [(f_fecha, PStr ''01/01/2024''), (f_hora, PStr ''10:00:00'')]"

definition sample_jan2 :: measurement where
  "sample_jan2 = [(f_fecha, PStr ''02/01/2024''), (f_hora, PStr ''09:00:00'')]"

definition sample_bad_date :: measurement where
  "sample_bad_date = [(f_fecha, PStr ''2024-01-03''), (f_hora, PStr ''08:00:00'')]"

definition sample_row_week1 :: "string list" where
  "sample_row_week1 =
     [''DT'', ''01/01/2024'', ''Ti'', ''10:00:00'', ''GE'', ''1'', ''FW'', ''18'']"

definition sample_row_week2 :: "string list" where
  "sample_row_week2 =
     [''DT'', ''08/01/2024'', ''Ti'', ''10:00:00'', ''GE'', ''1'', ''FW'', ''19'']"

definition sample_run_week2_first :: parser where
  \<comment> \<open>Two files of one row each; the file of the later date is ingested first.\<close>
  "sample_run_week2_first =
     parse_csv_file
       (parse_csv_file \<lparr>measurements = [], profiles = []\<rparr>
          ''DATA2.CSV'' ''measurement'' (Some [sample_row_week2]))
       ''DATA1.CSV'' ''measurement'' (Some [sample_row_week1])"

definition sample_run_week1_first :: parser where
  "sample_run_week1_first =
     parse_csv_file
       (parse_csv_file \<lparr>measurements = [], profiles = []\<rparr>
          ''DATA1.CSV'' ''measurement'' (Some [sample_row_week1]))
       ''DATA2.CSV'' ''measurement'' (Some [sample_row_week2])"

section \<open>Properties of the row decoder\<close>

lemma pair_indices_bound: "i \<in> set (pair_indices n) \<Longrightarrow> i + 1 < n"
  by (auto simp: pair_indices_def)

lemma pair_indices_iff: "i \<in> set (pair_indices n) \<longleftrightarrow> even i \<and> i + 1 < n"
  by (auto simp: pair_indices_def image_iff elim!: evenE)

lemma map_of_foldl_store:
  "map_of (foldl (store_pair row) m is) k =
     (case find (\<lambda>i. field_key (header_at row i) = k) (rev is) of
        None \<Rightarrow> map_of m k
      | Some i \<Rightarrow> Some (PStr (value_at row i)))"
proof (induction "is" rule: rev_induct)
  case Nil
  show ?case by simp
next
  case (snoc i "is")
  then show ?case
    by (simp add: store_pair_def update_conv')
qed

lemma table_names_not_provenance:
  "\<forall>p \<in> set TANITA_MAPPINGS. snd p \<notin> {''file'', ''row'', ''raw_data''}"
  by (simp add: TANITA_MAPPINGS_def f_masa_def f_imc_def f_fecha_def f_hora_def f_genero_def
      f_grasa_def f_musculo_def f_visceral_def f_edad_metabolica_def f_icd_def f_agua_def)

lemma field_key_cases:
  "field_key h \<in> snd ` set TANITA_MAPPINGS \<or> field_key h = ''Unknown_'' @ h"
  by (auto simp: field_key_def split: option.splits dest!: map_of_SomeD intro: rev_image_eqI)

lemma field_key_not_provenance:
  "field_key h \<notin> {''file'', ''row'', ''raw_data''}"
  using field_key_cases [of h] table_names_not_provenance by auto


lemma measurements_parse_rows:
  "measurements (parse_rows self fp ''measurement'' n rows) =
     measurements self @
       map (\<lambda>(i, r). decode_row r fp i)
         (filter (\<lambda>(i, r). 2 \<le> length r) (zip [n ..< n + length rows] rows))"
proof (induction rows arbitrary: self n)
  case Nil
  show ?case by simp
next
  case (Cons row rows)
  have up: "[n ..< n + length (row # rows)] = n # [Suc n ..< Suc n + length rows]"
    using upt_conv_Cons [of n "n + length (row # rows)"] by simp
  show ?case
    unfolding up using Cons.IH [of _ "Suc n"]
    by (auto simp: parse_measurement_row_def)
qed

lemma decode_row_lookup:
  "map_of (decode_row row fp n) k =
     (case find (\<lambda>i. field_key (header_at row i) = k) (rev (pair_indices (length row))) of
        None \<Rightarrow> map_of (new_measurement row fp n) k
      | Some i \<Rightarrow> Some (PStr (value_at row i)))"
  by (simp add: decode_row_def map_of_foldl_store)

lemma decode_row_keys:
  "fst ` set (decode_row row fp n) =
     {''file'', ''row'', ''raw_data''} \<union>
     (\<lambda>i. field_key (header_at row i)) ` set (pair_indices (length row))"
proof -
  have "fst ` set (foldl (store_pair row) m is) =
          fst ` set m \<union> (\<lambda>i. field_key (header_at row i)) ` set is" for m "is"
    by (induction "is" arbitrary: m) (auto simp: store_pair_def dom_update)
  then show ?thesis
    by (auto simp: decode_row_def new_measurement_def)
qed

lemma find_last_write:
  assumes "j \<in> set is" "P j" "\<forall>l \<in> set is. j < l \<longrightarrow> \<not> P l" "sorted is" "distinct is"
  shows "find P (rev is) = Some j"
  using assms
proof (induction "is" rule: rev_induct)
  case Nil
  then show ?case by simp
next
  case (snoc x xs)
  show ?case
  proof (cases "x = j")
    case True
    with snoc.prems show ?thesis by simp
  next
    case False
    with snoc.prems have jin: "j \<in> set xs" by simp
    from snoc.prems have "sorted (xs @ [x])" by simp
    then have "j \<le> x" using jin by (simp add: sorted_append)
    with False have "j < x" by simp
    with snoc.prems have "\<not> P x" by simp
    moreover have "find P (rev xs) = Some j"
      using snoc.IH jin snoc.prems by (simp add: sorted_append)
    ultimately show ?thesis by simp
  qed
qed

lemma pair_indices_sorted: "sorted (pair_indices n)" "distinct (pair_indices n)"
  by (auto simp: pair_indices_def sorted_map distinct_map inj_on_def intro!: sorted_wrt_mono_rel[of _ "(<)"] )

lemma pair_indices_append:
  "even (length row) \<Longrightarrow> pair_indices (length (row @ [t])) = pair_indices (length row)"
  by (auto simp: pair_indices_def elim!: evenE)

lemma store_pair_append:
  "i + 1 < length row \<Longrightarrow> store_pair (row @ [t]) m i = store_pair row m i"
  by (simp add: store_pair_def header_at_def value_at_def nth_append)


text \<open>
  Claim C6, as amended. The decoder looks every code up, and builds the unknown key, after
  trimming the whitespace around the token: for every pair of a row (an even position
  \<open>i\<close> with a following value) the key of the trimmed code is a key of the decoded
  measurement, its mapped field name if the trimmed code is in the code table and
  \<open>Unknown_\<close> followed by the trimmed code otherwise. A row of fewer than two tokens is
  skipped by the ingestion loop, whatever the file type, and the trailing unpaired token
  of a row of odd length changes no entry other than \<open>raw_data\<close>, which keeps the
  whole row.
\<close>

theorem decode_row_retains_pairs:
  "(even i \<and> i + 1 < length row \<longrightarrow>
      (case map_of TANITA_MAPPINGS (py_strip (row ! i)) of
         Some name \<Rightarrow> name
       | None \<Rightarrow> ''Unknown_'' @ py_strip (row ! i))
        \<in> fst ` set (decode_row row file_path row_num))
   \<and> (length short < 2 \<longrightarrow>
        parse_rows self file_path file_type row_num (short # rows) =
        parse_rows self file_path file_type (row_num + 1) rows)
   \<and> (even (length paired) \<and> k \<noteq> ''raw_data'' \<longrightarrow>
        map_of (decode_row (paired @ [t]) file_path row_num) k =
        map_of (decode_row paired file_path row_num) k)"
proof (intro conjI impI)
  assume "even i \<and> i + 1 < length row"
  then have "i \<in> set (pair_indices (length row))"
    by (simp add: pair_indices_iff)
  then have "field_key (header_at row i) \<in> fst ` set (decode_row row file_path row_num)"
    unfolding decode_row_keys by blast
  then show "(case map_of TANITA_MAPPINGS (py_strip (row ! i)) of
         Some name \<Rightarrow> name
       | None \<Rightarrow> ''Unknown_'' @ py_strip (row ! i))
        \<in> fst ` set (decode_row row file_path row_num)"
    by (simp add: field_key_def header_at_def)
next
  assume "length short < 2"
  then show "parse_rows self file_path file_type row_num (short # rows) =
        parse_rows self file_path file_type (row_num + 1) rows"
    by simp
next
  assume a: "even (length paired) \<and> k \<noteq> ''raw_data''"
  have same: "foldl (store_pair (paired @ [t])) m is = foldl (store_pair paired) m is"
    if "\<forall>i \<in> set is. i + 1 < length paired" for m "is"
    using that by (induction "is" arbitrary: m) (simp_all add: store_pair_append)
  have ev: "even (length paired)" using a by simp
  have bound: "\<forall>i \<in> set (pair_indices (length paired)). i + 1 < length paired"
    by (auto dest: pair_indices_bound)
  have "map_of (decode_row (paired @ [t]) file_path row_num) k =
        map_of (foldl (store_pair paired) (new_measurement (paired @ [t]) file_path row_num)
                 (pair_indices (length paired))) k"
    unfolding decode_row_def pair_indices_append [OF ev] same [OF bound] ..
  also have "\<dots> = map_of (decode_row paired file_path row_num) k"
    using a by (simp add: decode_row_def map_of_foldl_store new_measurement_def split: option.splits)
  finally show "map_of (decode_row (paired @ [t]) file_path row_num) k =
        map_of (decode_row paired file_path row_num) k" .
qed

theorem decode_row_retains_pairs_witness:
  "''Unknown_ZZ'' \<in> fst ` set (decode_row ['' ZZ'', ''1'', ''Wk'', ''83,5''] ''DATA1.CSV'' 0)
   \<and> parse_rows \<lparr>measurements = [], profiles = []\<rparr> ''DATA1.CSV'' ''measurement'' 0 [[''Wk'']] =
       \<lparr>measurements = [], profiles = []\<rparr>
   \<and> map_of (decode_row [''Wk'', ''83,5'', ''MI''] ''DATA1.CSV'' 0) f_masa =
       map_of (decode_row [''Wk'', ''83,5''] ''DATA1.CSV'' 0) f_masa"
proof -
  have t: "map_of TANITA_MAPPINGS ''ZZ'' = None"
    by (simp add: TANITA_MAPPINGS_def)
  have s: "py_strip '' ZZ'' = ''ZZ''"
    by (simp add: py_strip_def py_isspace_def)
  have n: "f_masa \<noteq> ''raw_data''"
    by (simp add: f_masa_def)
  show ?thesis
    using decode_row_retains_pairs [of 0 "['' ZZ'', ''1'', ''Wk'', ''83,5'']" "''DATA1.CSV''" 0
        "[''Wk'']" "\<lparr>measurements = [], profiles = []\<rparr>" "''measurement''" "[]"
        "[''Wk'', ''83,5'']" f_masa "''MI''"] t s n
    by simp
qed

text \<open>
  The claim as it was written takes the key to be \<open>Unknown_\<close> followed by the token
  itself. The token \<open>" ZZ"\<close> is not in the code table, and the decoded measurement has
  the key \<open>Unknown_ZZ\<close>, not \<open>Unknown_ ZZ\<close>.
\<close>

theorem unknown_key_uses_stripped_code:
  "map_of TANITA_MAPPINGS '' ZZ'' = None
   \<and> ''Unknown_ ZZ'' \<notin> fst ` set (decode_row ['' ZZ'', ''1''] ''DATA1.CSV'' 0)
   \<and> decode_row ['' ZZ'', ''1''] ''DATA1.CSV'' 0 =
       [(''file'', PStr ''DATA1.CSV''), (''row'', PInt 1), (''raw_data'', PList ['' ZZ'', ''1'']),
        (''Unknown_ZZ'', PStr ''1'')]"
  by (simp add: TANITA_MAPPINGS_def decode_row_def pair_indices_def store_pair_def field_key_def
      header_at_def value_at_def new_measurement_def py_strip_def py_isspace_def basename_def)

text \<open>
  Claim C9. When two pairs of a row, at the even positions \<open>i < j\<close>, have codes that are
  stored under the same key, and no pair after \<open>j\<close> has that key, the decoded
  measurement holds under it the (trimmed) value of the pair at \<open>j\<close>: the last write
  wins. Decoding is a total function, and every index the loop reads is inside the row.
\<close>

theorem last_write_wins:
  assumes "even i" "even j" "i < j" "j + 1 < length row"
    and "field_key (py_strip (row ! i)) = field_key (py_strip (row ! j))"
    and "\<forall>l. even l \<and> j < l \<and> l + 1 < length row \<longrightarrow>
           field_key (py_strip (row ! l)) \<noteq> field_key (py_strip (row ! j))"
  shows "map_of (decode_row row file_path row_num) (field_key (py_strip (row ! j))) =
           Some (PStr (py_strip (row ! (j + 1))))
         \<and> (\<forall>l \<in> set (pair_indices (length row)). l + 1 < length row)"
proof -
  have jin: "j \<in> set (pair_indices (length row))"
    using assms by (simp add: pair_indices_iff)
  have later: "\<forall>l \<in> set (pair_indices (length row)).
                 j < l \<longrightarrow> \<not> field_key (header_at row l) = field_key (header_at row j)"
    using assms(6) by (auto simp: pair_indices_iff header_at_def)
  have "find (\<lambda>l. field_key (header_at row l) = field_key (header_at row j))
          (rev (pair_indices (length row))) = Some j"
    by (rule find_last_write [OF jin _ later pair_indices_sorted]) simp
  then have "map_of (decode_row row file_path row_num) (field_key (header_at row j)) =
               Some (PStr (value_at row j))"
    by (simp add: decode_row_lookup)
  moreover have "\<forall>l \<in> set (pair_indices (length row)). l + 1 < length row"
    by (auto dest: pair_indices_bound)
  ultimately show ?thesis
    using assms(4) by (simp add: header_at_def value_at_def)
qed

theorem last_write_wins_witness:
  "map_of (decode_row [''Wk'', ''80,1'', ''GE'', ''1'', '' Wk'', '' 79,4 ''] ''DATA1.CSV'' 0) f_masa =
     Some (PStr ''79,4'')"
proof -
  let ?row = "[''Wk'', ''80,1'', ''GE'', ''1'', '' Wk'', '' 79,4 '']"
  have k0: "field_key (py_strip (?row ! 0)) = f_masa"
    by (simp add: field_key_def py_strip_def py_isspace_def TANITA_MAPPINGS_def)
  have k4: "field_key (py_strip (?row ! 4)) = f_masa"
    by (simp add: field_key_def py_strip_def py_isspace_def TANITA_MAPPINGS_def)
  have v: "py_strip (?row ! (4 + 1)) = ''79,4''"
    by (simp add: py_strip_def py_isspace_def)
  have later: "\<forall>l. even l \<and> 4 < l \<and> l + 1 < length ?row \<longrightarrow>
                 field_key (py_strip (?row ! l)) \<noteq> field_key (py_strip (?row ! 4))"
  proof (intro allI impI)
    fix l :: nat
    assume "even l \<and> 4 < l \<and> l + 1 < length ?row"
    then have "False" by (auto elim!: evenE)
    then show "field_key (py_strip (?row ! l)) \<noteq> field_key (py_strip (?row ! 4))" ..
  qed
  have "map_of (decode_row ?row ''DATA1.CSV'' 0) (field_key (py_strip (?row ! 4))) =
          Some (PStr (py_strip (?row ! (4 + 1))))"
    using last_write_wins [of 0 4 ?row "''DATA1.CSV''" 0] k0 k4 later by simp
  then show ?thesis
    unfolding k4 v .
qed

text \<open>
  Claim C10. The keys \<open>file\<close>, \<open>row\<close> and \<open>raw_data\<close> of a decoded measurement still hold
  the base name of the source file, the row number counted from one and the tokens of the
  row: every key written by the loop is a field name of the code table or starts with
  \<open>Unknown_\<close>, and none of the three keys is either.
\<close>

theorem provenance_preserved:
  "measurements (parse_measurement_row self row file_path row_num) =
     measurements self @ [decode_row row file_path row_num]
   \<and> map_of (decode_row row file_path row_num) ''file'' = Some (PStr (basename file_path))
   \<and> map_of (decode_row row file_path row_num) ''row'' = Some (PInt (int row_num + 1))
   \<and> map_of (decode_row row file_path row_num) ''raw_data'' = Some (PList row)
   \<and> (field_key header \<in> snd ` set TANITA_MAPPINGS \<or> take 8 (field_key header) = ''Unknown_'')
   \<and> {''file'', ''row'', ''raw_data''} \<inter> snd ` set TANITA_MAPPINGS = {}
   \<and> take 8 ''file'' \<noteq> ''Unknown_'' \<and> take 8 ''row'' \<noteq> ''Unknown_''
   \<and> take 8 ''raw_data'' \<noteq> ''Unknown_''"
proof -
  have none: "find (\<lambda>i. field_key (header_at row i) = k) (rev (pair_indices (length row))) = None"
    if "k \<in> {''file'', ''row'', ''raw_data''}" for k
    using that field_key_not_provenance by (auto simp: find_None_iff)
  have "map_of (decode_row row file_path row_num) k = map_of (new_measurement row file_path row_num) k"
    if "k \<in> {''file'', ''row'', ''raw_data''}" for k
    using none [OF that] by (simp add: decode_row_lookup)
  then have "map_of (decode_row row file_path row_num) ''file'' = Some (PStr (basename file_path))"
    and "map_of (decode_row row file_path row_num) ''row'' = Some (PInt (int row_num + 1))"
    and "map_of (decode_row row file_path row_num) ''raw_data'' = Some (PList row)"
    by (simp_all add: new_measurement_def)
  moreover have "field_key header \<in> snd ` set TANITA_MAPPINGS \<or> take 8 (field_key header) = ''Unknown_''"
    using field_key_cases [of header] by auto
  moreover have "{''file'', ''row'', ''raw_data''} \<inter> snd ` set TANITA_MAPPINGS = {}"
    using table_names_not_provenance by auto
  moreover have "measurements (parse_measurement_row self row file_path row_num) =
     measurements self @ [decode_row row file_path row_num]"
    by (simp add: parse_measurement_row_def)
  ultimately show ?thesis by simp
qed

theorem provenance_preserved_witness:
  "map_of (decode_row [''DT'', ''01/01/2024'', ''file'', ''x'', ''row'', ''7'']
             ''/media/tanita/DATA1.CSV'' 4) ''file'' = Some (PStr ''DATA1.CSV'')
   \<and> map_of (decode_row [''DT'', ''01/01/2024'', ''file'', ''x'', ''row'', ''7'']
             ''/media/tanita/DATA1.CSV'' 4) ''row'' = Some (PInt 5)
   \<and> field_key ''file'' = ''Unknown_file''"
proof -
  have "basename ''/media/tanita/DATA1.CSV'' = ''DATA1.CSV''"
    by (simp add: basename_def)
  moreover have "field_key ''file'' = ''Unknown_file''"
    by (simp add: field_key_def TANITA_MAPPINGS_def)
  ultimately show ?thesis
    using provenance_preserved [of "\<lparr>measurements = [], profiles = []\<rparr>"
        "[''DT'', ''01/01/2024'', ''file'', ''x'', ''row'', ''7'']"
        "''/media/tanita/DATA1.CSV''" 4 "''file''"]
    by simp
qed

section \<open>Properties of the sorter and of the report\<close>


lemma re_m_ge: "(m, r) \<in> set (re_m s) \<Longrightarrow> 1 \<le> m"
  unfolding re_m_def
  by (auto simp: two_def one_def in_range_def digit_val_def is_digit_def split: list.splits if_splits)

lemma regex_matches_month:
  assumes "((d, m, y, H, M, S), rest) \<in> set (regex_matches s)"
  shows "1 \<le> m"
proof -
  from assms obtain r2 r3 where "(m, r3) \<in> set (re_m r2)"
    unfolding regex_matches_def by auto
  then show ?thesis by (rule re_m_ge)
qed

lemma strptime_ge_min:
  assumes "strptime s = Some t"
  shows "datetime_min \<le> t"
proof -
  from assms obtain d m y H M S rest ms where
    rm: "regex_matches s = ((d, m, y, H, M, S), rest) # ms"
    and ok: "1 \<le> y" "1 \<le> d" and t: "t = (y, m, d, H, M, S)"
    by (auto simp: strptime_def split: list.splits if_splits)
  from rm have "((d, m, y, H, M, S), rest) \<in> set (regex_matches s)" by simp
  then have "1 \<le> m" by (rule regex_matches_month)
  with ok show ?thesis
    unfolding t datetime_min_def by auto
qed

lemma parse_datetime_ge_min: "datetime_min \<le> parse_datetime m"
  by (auto simp: parse_datetime_def Let_def strptime_ge_min split: option.splits)

lemma insort_key_least:
  "(\<forall>y \<in> set ys. f x \<le> f y) \<Longrightarrow> insort_key f x ys = x # ys"
  by (cases ys) auto

lemma insort_key_after:
  "(\<forall>y \<in> set zs. f y < f x) \<Longrightarrow> insort_key f x (zs @ ys) = zs @ insort_key f x ys"
  by (induction zs) auto

lemma sort_key_least_first:
  fixes f :: "'a \<Rightarrow> 'k::linorder"
  assumes least: "\<And>x. b \<le> f x"
  shows "sort_key f xs = filter (\<lambda>x. f x = b) xs @ sort_key f (filter (\<lambda>x. f x \<noteq> b) xs)"
proof (induction xs)
  case Nil
  show ?case by simp
next
  case (Cons x xs)
  show ?case
  proof (cases "f x = b")
    case True
    then have "\<forall>y \<in> set (sort_key f xs). f x \<le> f y" using least by simp
    then have "insort_key f x (sort_key f xs) = x # sort_key f xs"
      by (rule insort_key_least)
    with True Cons.IH show ?thesis by simp
  next
    case False
    then have "b < f x" using least [of x] by simp
    then have "\<forall>y \<in> set (filter (\<lambda>x. f x = b) xs). f y < f x" by simp
    then show ?thesis
      using False Cons.IH by (simp add: insort_key_after)
  qed
qed


lemma map_snd_report_sections: "map snd (report_sections self) = measurements self"
proof -
  have "map snd (map (\<lambda>(i, m). (section_title i m, m)) (enumerate n xs)) = xs" for n and xs :: "measurement list"
    by (induction xs arbitrary: n) simp_all
  then show ?thesis by (simp add: report_sections_def)
qed

lemma sort_key_fixed_iff:
  fixes f :: "'a \<Rightarrow> 'k::linorder"
  shows "sort_key f xs = xs \<longleftrightarrow> sorted (map f xs)"
proof
  assume "sort_key f xs = xs"
  then have "sorted (map f xs) = sorted (map f (sort_key f xs))" by simp
  then show "sorted (map f xs)" by simp
next
  assume "sorted (map f xs)"
  then show "sort_key f xs = xs" by (rule sort_key_id_if_sorted)
qed

text \<open>
  Claim C5. The sorted list is ascending by the key, stable (for every key, the
  measurements with that key keep their discovery order) and a rearrangement of the
  collection, so nothing is dropped; the sort is a total function. A measurement whose
  date or time is missing or empty, or whose text does not parse as day/month/year and
  hour:minute:second, has the key \<open>datetime.min\<close>, which is below or equal to every key:
  the sorted list is the measurements with that key, in discovery order, followed by the
  others.
\<close>

theorem chronological_sort:
  "sorted (map parse_datetime (get_sorted_measurements self))
   \<and> filter (\<lambda>m. parse_datetime m = k) (get_sorted_measurements self) =
       filter (\<lambda>m. parse_datetime m = k) (measurements self)
   \<and> mset (get_sorted_measurements self) = mset (measurements self)
   \<and> (\<not> py_truthy (map_of m f_fecha) \<or> \<not> py_truthy (map_of m f_hora) \<or>
        strptime (py_str_opt (map_of m f_fecha) @ '' '' @ py_str_opt (map_of m f_hora)) = None
        \<longrightarrow> parse_datetime m = datetime_min)
   \<and> datetime_min \<le> parse_datetime m
   \<and> get_sorted_measurements self =
       filter (\<lambda>m. parse_datetime m = datetime_min) (measurements self) @
       py_sorted parse_datetime (filter (\<lambda>m. parse_datetime m \<noteq> datetime_min) (measurements self))"
proof (intro conjI impI)
  show "sorted (map parse_datetime (get_sorted_measurements self))"
    by (simp add: get_sorted_measurements_def py_sorted_def)
  show "filter (\<lambda>m. parse_datetime m = k) (get_sorted_measurements self) =
       filter (\<lambda>m. parse_datetime m = k) (measurements self)"
    by (simp add: get_sorted_measurements_def py_sorted_def sort_key_stable)
  show "mset (get_sorted_measurements self) = mset (measurements self)"
    by (simp add: get_sorted_measurements_def py_sorted_def)
  show "datetime_min \<le> parse_datetime m"
    by (rule parse_datetime_ge_min)
  show "get_sorted_measurements self =
       filter (\<lambda>m. parse_datetime m = datetime_min) (measurements self) @
       py_sorted parse_datetime (filter (\<lambda>m. parse_datetime m \<noteq> datetime_min) (measurements self))"
    unfolding get_sorted_measurements_def py_sorted_def
    by (rule sort_key_least_first) (rule parse_datetime_ge_min)
next
  assume "\<not> py_truthy (map_of m f_fecha) \<or> \<not> py_truthy (map_of m f_hora) \<or>
        strptime (py_str_opt (map_of m f_fecha) @ '' '' @ py_str_opt (map_of m f_hora)) = None"
  then show "parse_datetime m = datetime_min"
    by (auto simp: parse_datetime_def Let_def)
qed

theorem chronological_sort_witness:
  "parse_datetime sample_bad_date = datetime_min
   \<and> get_sorted_measurements \<lparr>measurements = [sample_jan2, sample_bad_date, sample_jan1], profiles = []\<rparr> =
       [sample_bad_date, sample_jan1, sample_jan2]"
proof -
  let ?self = "\<lparr>measurements = [sample_jan2, sample_bad_date, sample_jan1], profiles = []\<rparr>"
  have none: "strptime (py_str_opt (map_of sample_bad_date f_fecha) @ '' '' @
                py_str_opt (map_of sample_bad_date f_hora)) = None"
    by code_simp
  have k1: "parse_datetime sample_jan1 = (2024, 1, 1, 10, 0, 0)"
    by code_simp
  have k2: "parse_datetime sample_jan2 = (2024, 1, 2, 9, 0, 0)"
    by code_simp
  have bad: "parse_datetime sample_bad_date = datetime_min"
    using chronological_sort [of ?self datetime_min sample_bad_date] none by simp
  have "get_sorted_measurements ?self =
          filter (\<lambda>m. parse_datetime m = datetime_min) (measurements ?self) @
          py_sorted parse_datetime
            (filter (\<lambda>m. parse_datetime m \<noteq> datetime_min) (measurements ?self))"
    using chronological_sort [of ?self datetime_min sample_bad_date] by blast
  then have "get_sorted_measurements ?self = [sample_bad_date, sample_jan1, sample_jan2]"
    by (simp add: k1 k2 bad datetime_min_def py_sorted_def)
  with bad show ?thesis by simp
qed

text \<open>
  Claim C1, as amended. The report renders one section for each element of
  \<open>self.measurements\<close>, in the order of ingestion: the rendered sequence has the same
  measurements as the output of the sorter, and is that output exactly when the
  ingestion order is already ascending by date and time. The sorter's output only
  gives the pair of the comparison section, its last two elements.
\<close>

theorem report_sections_in_discovery_order:
  "map snd (report_sections self) = measurements self
   \<and> mset (map snd (report_sections self)) = mset (get_sorted_measurements self)
   \<and> (map snd (report_sections self) = get_sorted_measurements self
        \<longleftrightarrow> sorted (map parse_datetime (measurements self)))
   \<and> (2 \<le> length (measurements self) \<longrightarrow>
        comparison_pair self =
          Some (get_sorted_measurements self ! (length (measurements self) - 2),
                get_sorted_measurements self ! (length (measurements self) - 1)))"
proof -
  have "map snd (report_sections self) = get_sorted_measurements self
        \<longleftrightarrow> sorted (map parse_datetime (measurements self))"
    unfolding map_snd_report_sections get_sorted_measurements_def py_sorted_def
    using sort_key_fixed_iff [of parse_datetime "measurements self"] by auto
  then show ?thesis
    by (simp add: map_snd_report_sections get_sorted_measurements_def py_sorted_def
        comparison_pair_def Let_def)
qed

lemma sample_keys:
  "parse_datetime (decode_row sample_row_week1 ''DATA1.CSV'' 0) = (2024, 1, 1, 10, 0, 0)"
  "parse_datetime (decode_row sample_row_week2 ''DATA2.CSV'' 0) = (2024, 1, 8, 10, 0, 0)"
  by code_simp+

lemma sample_run_measurements:
  "measurements sample_run_week2_first =
     [decode_row sample_row_week2 ''DATA2.CSV'' 0, decode_row sample_row_week1 ''DATA1.CSV'' 0]"
  "measurements sample_run_week1_first =
     [decode_row sample_row_week1 ''DATA1.CSV'' 0, decode_row sample_row_week2 ''DATA2.CSV'' 0]"
  by (simp_all add: sample_run_week2_first_def sample_run_week1_first_def parse_csv_file_def
      parse_measurement_row_def sample_row_week1_def sample_row_week2_def)

theorem report_sections_in_discovery_order_witness:
  "map snd (report_sections sample_run_week1_first) = get_sorted_measurements sample_run_week1_first
   \<and> comparison_pair sample_run_week1_first =
       Some (decode_row sample_row_week1 ''DATA1.CSV'' 0, decode_row sample_row_week2 ''DATA2.CSV'' 0)"
proof -
  note inst = report_sections_in_discovery_order [of sample_run_week1_first]
  have srt: "sorted (map parse_datetime (measurements sample_run_week1_first))"
    by (simp add: sample_run_measurements sample_keys)
  have len: "2 \<le> length (measurements sample_run_week1_first)"
    by (simp add: sample_run_measurements)
  from inst have a: "map snd (report_sections sample_run_week1_first) = measurements sample_run_week1_first"
    by blast
  from inst srt have b: "map snd (report_sections sample_run_week1_first) =
      get_sorted_measurements sample_run_week1_first"
    by blast
  from a b have eq: "get_sorted_measurements sample_run_week1_first = measurements sample_run_week1_first"
    by simp
  from inst len have "comparison_pair sample_run_week1_first =
          Some (get_sorted_measurements sample_run_week1_first ! (length (measurements sample_run_week1_first) - 2),
                get_sorted_measurements sample_run_week1_first ! (length (measurements sample_run_week1_first) - 1))"
    by blast
  then have "comparison_pair sample_run_week1_first =
       Some (decode_row sample_row_week1 ''DATA1.CSV'' 0, decode_row sample_row_week2 ''DATA2.CSV'' 0)"
    unfolding eq by (simp add: sample_run_measurements)
  with b show ?thesis by simp
qed

text \<open>
  The claim as it was written fails when the later file is ingested first: the report
  renders the measurement of 8 January before that of 1 January, and the sorter returns
  them the other way round.
\<close>

theorem report_sections_not_sorted:
  "map snd (report_sections sample_run_week2_first) =
     [decode_row sample_row_week2 ''DATA2.CSV'' 0, decode_row sample_row_week1 ''DATA1.CSV'' 0]
   \<and> get_sorted_measurements sample_run_week2_first =
     [decode_row sample_row_week1 ''DATA1.CSV'' 0, decode_row sample_row_week2 ''DATA2.CSV'' 0]
   \<and> map snd (report_sections sample_run_week2_first) \<noteq> get_sorted_measurements sample_run_week2_first"
proof -
  have ne: "decode_row sample_row_week2 ''DATA2.CSV'' 0 \<noteq> decode_row sample_row_week1 ''DATA1.CSV'' 0"
    using sample_keys by auto
  have "get_sorted_measurements sample_run_week2_first =
     [decode_row sample_row_week1 ''DATA1.CSV'' 0, decode_row sample_row_week2 ''DATA2.CSV'' 0]"
    by (simp add: get_sorted_measurements_def py_sorted_def sample_run_measurements sample_keys)
  then show ?thesis
    using ne by (simp add: map_snd_report_sections sample_run_measurements)
qed

section \<open>Properties of the numeric sites\<close>


lemma py_replace_absent: "c \<notin> set s \<Longrightarrow> py_replace c r s = s"
  by (induction s) (auto simp: py_replace_def)

lemma py_replace_delete: "py_replace c [] s = filter (\<lambda>x. x \<noteq> c) s"
  by (induction s) (auto simp: py_replace_def)

lemma py_replace_char: "py_replace c [d] s = map (\<lambda>x. if x = c then d else x) s"
  by (induction s) (auto simp: py_replace_def)

lemma set_strip_keeps:
  assumes "c \<in> set s" "\<not> P c"
  shows "c \<in> set (rev (dropWhile P (rev (dropWhile P s))))"
proof -
  have k: "c \<in> set (dropWhile P xs)" if "c \<in> set xs" for xs
    using that assms(2) by (induction xs) auto
  have "c \<in> set (dropWhile P s)" using assms(1) by (rule k)
  then have "c \<in> set (rev (dropWhile P s))" by simp
  then have "c \<in> set (dropWhile P (rev (dropWhile P s)))" by (rule k)
  then show ?thesis by simp
qed

lemma split_sign_keeps:
  assumes "c \<in> set s" "c \<noteq> CHR ''-''" "c \<noteq> CHR ''+''"
  shows "c \<in> set (snd (split_sign s))"
  using assms by (cases s) (auto simp: split_sign_def)

lemma dropWhile_keeps: "c \<in> set xs \<Longrightarrow> \<not> P c \<Longrightarrow> c \<in> set (dropWhile P xs)"
  by (induction xs) auto

lemma parse_decimal_percent:
  assumes "CHR ''%'' \<in> set r"
  shows "parse_decimal r = None"
proof -
  have nd: "\<not> is_digit CHR ''%''" by (simp add: is_digit_def)
  let ?r1 = "dropWhile is_digit r"
  have r1: "CHR ''%'' \<in> set ?r1" using assms nd by (rule dropWhile_keeps)
  let ?r2 = "(case ?r1 of c # r \<Rightarrow> if c = CHR ''.'' then dropWhile is_digit r else ?r1 | [] \<Rightarrow> [])"
  have r2: "CHR ''%'' \<in> set ?r2"
    using r1 nd by (cases ?r1) (auto intro: dropWhile_keeps)
  then obtain c r3 where c: "?r2 = c # r3" by (cases ?r2) auto
  have "\<not> (snd (split_sign r3) \<noteq> [] \<and> list_all is_digit (snd (split_sign r3)))"
    if "c = CHR ''e'' \<or> c = CHR ''E''"
  proof -
    from r2 c that have "CHR ''%'' \<in> set r3" by auto
    then have "CHR ''%'' \<in> set (snd (split_sign r3))" by (rule split_sign_keeps) simp_all
    with nd show ?thesis by (auto simp: list_all_iff)
  qed
  then show ?thesis
    unfolding parse_decimal_def Let_def c
    by (auto simp: case_prod_beta split: list.splits)
qed

lemma parse_float_body_percent:
  assumes "CHR ''%'' \<in> set u"
  shows "parse_float_body u = None"
proof -
  have r: "CHR ''%'' \<in> set (snd (split_sign u))"
    using assms by (rule split_sign_keeps) simp_all
  have low: "ascii_lower CHR ''%'' = CHR ''%''" by (simp add: ascii_lower_def)
  have "CHR ''%'' \<in> set (map ascii_lower (snd (split_sign u)))"
    using r low by (metis image_eqI set_map)
  then have "map ascii_lower (snd (split_sign u)) \<noteq> ''inf''"
    and "map ascii_lower (snd (split_sign u)) \<noteq> ''infinity''"
    and "map ascii_lower (snd (split_sign u)) \<noteq> ''nan''"
    by auto
  then show ?thesis
    using parse_decimal_percent [OF r]
    by (simp add: parse_float_body_def case_prod_beta)
qed

lemma py_float_percent:
  assumes "CHR ''%'' \<in> set s"
  shows "py_float s = None"
proof -
  have "float_transform CHR ''%'' = CHR ''%''" by (simp add: float_transform_def)
  then have "CHR ''%'' \<in> set (map float_transform s)"
    using assms by (metis image_eqI set_map)
  moreover have "\<not> c_isspace CHR ''%''" by (simp add: c_isspace_def)
  ultimately have t: "CHR ''%'' \<in> set (c_strip (map float_transform s))"
    unfolding c_strip_def by (rule set_strip_keeps)
  then have "CHR ''%'' \<in> set (filter (\<lambda>c. c \<noteq> CHR ''_'') (c_strip (map float_transform s)))"
    by simp
  with t show ?thesis
    by (simp add: py_float_def Let_def parse_float_body_percent)
qed

lemma float_with_comma_no_percent:
  "CHR ''%'' \<notin> set s \<Longrightarrow> float_with_comma s = float_without_percent s"
  by (simp add: float_with_comma_def float_without_percent_def py_replace_absent)

lemma float_with_comma_percent:
  assumes "CHR ''%'' \<in> set s"
  shows "float_with_comma s = None"
proof -
  have "CHR ''%'' \<in> set (py_replace CHR '','' ''.'' s)"
    using assms by (auto simp: py_replace_char)
  then show ?thesis
    unfolding float_with_comma_def by (rule py_float_percent)
qed

lemma sample_numbers:
  "float_without_percent ''83,5'' = Some (Finite (167 / 2))"
  "float_without_percent ''20%'' = Some (Finite 20)"
  "float_without_percent ''abc'' = None"
  "float_without_percent '''' = None"
  "float_without_percent ''2%0'' = Some (Finite 20)"
  "float_without_percent ''24%'' = Some (Finite 24)"
  "float_without_percent ''24.0'' = Some (Finite 24)"
  "float_without_percent ''25.2'' = Some (Finite (7093169413108531 / 281474976710656))"
  "float_without_percent ''8.0'' = Some (Finite 8)"
  "float_without_percent ''7.999'' = Some (Finite (9006073354834149 / 1125899906842624))"
  by code_simp+

lemma sample_spec_number:
  "spec_to_number ''2%0'' = None"
  "spec_to_number ''20%'' = Some (Finite 20)"
  by code_simp+

text \<open>
  Claim C2, as amended. The sites do not call one function: each writes the conversion
  out. The sites of body fat, muscle and water, the comparison table and the comparison
  chart remove every percent sign and turn commas into points before parsing; the sites
  of the body mass index and of visceral fat only turn commas into points. The two
  conversions give the same result on every string without a percent sign, and on a
  string with a percent sign the second gives no number.
\<close>

theorem sites_normalisation:
  "grasa_value m = float_without_percent (py_str_opt (map_of m f_grasa))
   \<and> musc_value m = float_without_percent (py_str_opt (map_of m f_musculo))
   \<and> agua_value m = float_without_percent (py_str_opt (map_of m f_agua))
   \<and> imc_value m = float_with_comma (py_str_opt (map_of m f_imc))
   \<and> visceral_value m = float_with_comma (py_str_opt (map_of m f_visceral))
   \<and> (map_of m1 field = Some (PStr s1) \<and> map_of m2 field = Some (PStr s2) \<longrightarrow>
        map_option diff (comparison_diff m1 m2 field unit) =
          (case float_without_percent s1 of
             None \<Rightarrow> None
           | Some a \<Rightarrow> map_option (\<lambda>b. fsub b a) (float_without_percent s2))
        \<and> map_option chart_values (comparison_chart_data m1 m2 field unit) =
          (case float_without_percent s1 of
             None \<Rightarrow> None
           | Some a \<Rightarrow> map_option (\<lambda>b. (a, b)) (float_without_percent s2)))
   \<and> (CHR ''%'' \<notin> set s \<longrightarrow> float_with_comma s = float_without_percent s)
   \<and> (CHR ''%'' \<in> set s \<longrightarrow> float_with_comma s = None)"
proof -
  have "map_option diff (comparison_diff m1 m2 field unit) =
          (case float_without_percent s1 of
             None \<Rightarrow> None
           | Some a \<Rightarrow> map_option (\<lambda>b. fsub b a) (float_without_percent s2))"
    if "map_of m1 field = Some (PStr s1)" "map_of m2 field = Some (PStr s2)"
    using that
    by (simp add: comparison_diff_def float_without_percent_def py_str_opt_def Let_def
        split: option.splits)
  moreover have "map_option chart_values (comparison_chart_data m1 m2 field unit) =
          (case float_without_percent s1 of
             None \<Rightarrow> None
           | Some a \<Rightarrow> map_option (\<lambda>b. (a, b)) (float_without_percent s2))"
    if "map_of m1 field = Some (PStr s1)" "map_of m2 field = Some (PStr s2)"
    using that
    by (simp add: comparison_chart_data_def float_without_percent_def py_str_opt_def Let_def
        split: option.splits)
  moreover have "grasa_value m = float_without_percent (py_str_opt (map_of m f_grasa))"
    "musc_value m = float_without_percent (py_str_opt (map_of m f_musculo))"
    "agua_value m = float_without_percent (py_str_opt (map_of m f_agua))"
    "imc_value m = float_with_comma (py_str_opt (map_of m f_imc))"
    "visceral_value m = float_with_comma (py_str_opt (map_of m f_visceral))"
    by (simp_all add: grasa_value_def musc_value_def agua_value_def imc_value_def
        visceral_value_def float_without_percent_def float_with_comma_def)
  ultimately show ?thesis
    using float_with_comma_no_percent [of s] float_with_comma_percent [of s] by blast
qed

theorem sites_normalisation_witness:
  "map_option chart_values
     (comparison_chart_data [(f_imc, PStr ''24.0'')] [(f_imc, PStr ''25.2'')] f_imc '''') =
     Some (Finite 24, Finite (7093169413108531 / 281474976710656))
   \<and> float_with_comma ''24.0'' = float_without_percent ''24.0''
   \<and> float_with_comma ''24%'' = None"
proof -
  have n: "CHR ''%'' \<notin> set ''24.0''" "CHR ''%'' \<in> set ''24%''" by simp_all
  have g: "map_of [(f_imc, PStr ''24.0'')] f_imc = Some (PStr ''24.0'')"
    "map_of [(f_imc, PStr ''25.2'')] f_imc = Some (PStr ''25.2'')" by simp_all
  note a = sites_normalisation [of "[(f_imc, PStr ''24.0'')]" "[(f_imc, PStr ''24.0'')]" f_imc
      "''24.0''" "[(f_imc, PStr ''25.2'')]" "''25.2''" "''''" "''24.0''"]
  note b = sites_normalisation [of "[(f_imc, PStr ''24.0'')]" "[(f_imc, PStr ''24.0'')]" f_imc
      "''24.0''" "[(f_imc, PStr ''25.2'')]" "''25.2''" "''''" "''24%''"]
  from a g have "map_option chart_values
     (comparison_chart_data [(f_imc, PStr ''24.0'')] [(f_imc, PStr ''25.2'')] f_imc '''') =
      (case float_without_percent ''24.0'' of
             None \<Rightarrow> None
           | Some a \<Rightarrow> map_option (\<lambda>b. (a, b)) (float_without_percent ''25.2''))"
    by blast
  then have "map_option chart_values
     (comparison_chart_data [(f_imc, PStr ''24.0'')] [(f_imc, PStr ''25.2'')] f_imc '''') =
     Some (Finite 24, Finite (7093169413108531 / 281474976710656))"
    by (simp add: sample_numbers)
  moreover from a n have "float_with_comma ''24.0'' = float_without_percent ''24.0''"
    by blast
  moreover from b n have "float_with_comma ''24%'' = None"
    by blast
  ultimately show ?thesis by blast
qed

text \<open>
  The claim as it was written fails for a value with a percent sign under the body mass
  index: the classification site gives no number for \<open>24%\<close>, the comparison chart reads
  the same text as 24.
\<close>

theorem imc_site_keeps_percent:
  "imc_value [(f_imc, PStr ''24%'')] = None
   \<and> map_option chart_values
       (comparison_chart_data [(f_imc, PStr ''24%'')] [(f_imc, PStr ''24%'')] f_imc '''') =
       Some (Finite 24, Finite 24)
   \<and> map_option diff
       (comparison_diff [(f_imc, PStr ''24%'')] [(f_imc, PStr ''24%'')] f_imc '''') =
       Some (Finite 0)"
proof -
  have a: "imc_value [(f_imc, PStr ''24%'')] = None"
    using float_with_comma_percent [of "''24%''"]
    by (simp add: imc_value_def float_with_comma_def py_str_opt_def)
  have b: "py_float (py_replace CHR '','' ''.'' (py_replace CHR ''%'' [] ''24%'')) = Some (Finite 24)"
    using sample_numbers(6) by (simp add: float_without_percent_def)
  show ?thesis
    using a b
    by (simp add: comparison_chart_data_def comparison_diff_def py_str_opt_def Let_def)
qed

text \<open>
  Claim C4, as amended. The conversion removes every percent sign, wherever it stands,
  turns every comma into a point and parses the result; it is a total function whose
  failure is the value \<open>None\<close>. It gives 83.5 for \<open>83,5\<close>, 20 for \<open>20%\<close> and no number
  for \<open>abc\<close> and for the empty string. It agrees with the conversion that removes one
  trailing percent sign on every string that has no percent sign before its last
  character.
\<close>

theorem number_conversion:
  "float_without_percent s =
     py_float (map (\<lambda>c. if c = CHR '','' then CHR ''.'' else c) (filter (\<lambda>c. c \<noteq> CHR ''%'') s))
   \<and> (CHR ''%'' \<notin> set (butlast s) \<longrightarrow> float_without_percent s = spec_to_number s)
   \<and> float_without_percent ''83,5'' = Some (Finite (167 / 2))
   \<and> float_without_percent ''20%'' = Some (Finite 20)
   \<and> float_without_percent ''abc'' = None
   \<and> float_without_percent '''' = None"
proof -
  have "float_without_percent s = spec_to_number s" if "CHR ''%'' \<notin> set (butlast s)"
  proof (cases "s \<noteq> [] \<and> last s = CHR ''%''")
    case True
    then have s: "s = butlast s @ [CHR ''%'']" by (metis append_butlast_last_id)
    have "py_replace CHR ''%'' [] s = py_replace CHR ''%'' [] (butlast s @ [CHR ''%''])"
      using s by simp
    also have "\<dots> = butlast s"
      using that by (auto simp: py_replace_delete filter_id_conv)
    finally show ?thesis
      using True by (simp add: float_without_percent_def spec_to_number_def)
  next
    case False
    then have "CHR ''%'' \<notin> set s"
      using that by (cases s rule: rev_cases) auto
    with False show ?thesis
      by (auto simp: float_without_percent_def spec_to_number_def py_replace_absent)
  qed
  moreover have "float_without_percent s =
     py_float (map (\<lambda>c. if c = CHR '','' then CHR ''.'' else c) (filter (\<lambda>c. c \<noteq> CHR ''%'') s))"
    by (simp add: float_without_percent_def py_replace_delete py_replace_char)
  ultimately show ?thesis
    using sample_numbers(1-4) by blast
qed

theorem number_conversion_witness:
  "float_without_percent ''20%'' = spec_to_number ''20%'' \<and> spec_to_number ''20%'' = Some (Finite 20)"
proof -
  have "CHR ''%'' \<notin> set (butlast ''20%'')" by simp
  then have "float_without_percent ''20%'' = spec_to_number ''20%''"
    using number_conversion [of "''20%''"] by blast
  then show ?thesis
    by (simp add: sample_spec_number)
qed

text \<open>
  The claim as it was written removes a trailing percent sign only. For \<open>2%0\<close> that
  conversion gives no number, and the sites give 20.
\<close>

theorem percent_removed_everywhere:
  "float_without_percent ''2%0'' = Some (Finite 20)
   \<and> grasa_value [(f_grasa, PStr ''2%0'')] = Some (Finite 20)
   \<and> spec_to_number ''2%0'' = None"
  using sample_numbers(5) sample_spec_number(1)
  by (simp add: grasa_value_def float_without_percent_def py_str_opt_def)

section \<open>Properties of the sections and of the comparison\<close>

lemma decode_row_field_string:
  assumes "k \<notin> {''file'', ''row'', ''raw_data''}"
  shows "map_of (decode_row row fp n) k = None \<or> (\<exists>s. map_of (decode_row row fp n) k = Some (PStr s))"
  using assms by (auto simp: decode_row_lookup new_measurement_def split: option.splits)

lemma resolve_sexo_range: "resolve_sexo g \<in> {''hombre'', ''mujer'', ''otro''}"
  by (simp add: resolve_sexo_def Let_def)

text \<open>
  Claim C8. The category depends on the recorded string only through its lower-case
  form: the forms \<open>1\<close>, \<open>hombre\<close>, \<open>m\<close>, \<open>male\<close> give the male category, the forms \<open>2\<close>,
  \<open>mujer\<close>, \<open>f\<close>, \<open>female\<close> the female one and every other string the generic one, as does
  a measurement without the field. For a decoded measurement the resolution never
  fails.
\<close>

theorem sexo_resolution:
  "(py_lower g \<in> {''1'', ''hombre'', ''m'', ''male''} \<longrightarrow> resolve_sexo g = ''hombre'')
   \<and> (py_lower g \<in> {''2'', ''mujer'', ''f'', ''female''} \<longrightarrow> resolve_sexo g = ''mujer'')
   \<and> (py_lower g \<notin> {''1'', ''hombre'', ''m'', ''male'', ''2'', ''mujer'', ''f'', ''female''} \<longrightarrow>
        resolve_sexo g = ''otro'')
   \<and> (py_lower g = py_lower g' \<longrightarrow> resolve_sexo g = resolve_sexo g')
   \<and> (map_of m f_genero = None \<longrightarrow> sexo_of m = Inr ''otro'')
   \<and> (map_of m f_genero = Some (PStr g) \<longrightarrow> sexo_of m = Inr (resolve_sexo g))
   \<and> (\<exists>s \<in> {''hombre'', ''mujer'', ''otro''}. sexo_of (decode_row row file_path row_num) = Inr s)"
proof -
  have dec: "\<exists>s \<in> {''hombre'', ''mujer'', ''otro''}. sexo_of (decode_row row file_path row_num) = Inr s"
  proof -
    have "f_genero \<notin> {''file'', ''row'', ''raw_data''}" by (simp add: f_genero_def)
    from decode_row_field_string [OF this, of row file_path row_num]
    consider "map_of (decode_row row file_path row_num) f_genero = None"
      | s where "map_of (decode_row row file_path row_num) f_genero = Some (PStr s)"
      by auto
    then show ?thesis
    proof cases
      case 1
      then have "sexo_of (decode_row row file_path row_num) = Inr (resolve_sexo [])"
        by (simp add: sexo_of_def)
      then show ?thesis
        using resolve_sexo_range [of "[]"] by blast
    next
      case 2
      then have "sexo_of (decode_row row file_path row_num) = Inr (resolve_sexo s)"
        by (simp add: sexo_of_def)
      then show ?thesis
        using resolve_sexo_range [of s] by blast
    qed
  qed
  have empty: "resolve_sexo '''' = ''otro''"
    by (simp add: resolve_sexo_def py_lower_def)
  have "py_lower g \<in> {''1'', ''hombre'', ''m'', ''male''} \<longrightarrow> resolve_sexo g = ''hombre''"
    by (simp add: resolve_sexo_def Let_def)
  moreover have "py_lower g \<in> {''2'', ''mujer'', ''f'', ''female''} \<longrightarrow> resolve_sexo g = ''mujer''"
    by (auto simp: resolve_sexo_def Let_def)
  moreover have "py_lower g \<notin> {''1'', ''hombre'', ''m'', ''male'', ''2'', ''mujer'', ''f'', ''female''} \<longrightarrow>
        resolve_sexo g = ''otro''"
    by (simp add: resolve_sexo_def Let_def)
  moreover have "py_lower g = py_lower g' \<longrightarrow> resolve_sexo g = resolve_sexo g'"
    by (simp add: resolve_sexo_def)
  moreover have "map_of m f_genero = None \<longrightarrow> sexo_of m = Inr ''otro''"
    by (simp add: sexo_of_def empty)
  moreover have "map_of m f_genero = Some (PStr g) \<longrightarrow> sexo_of m = Inr (resolve_sexo g)"
    by (simp add: sexo_of_def)
  ultimately show ?thesis
    using dec by blast
qed

theorem sexo_resolution_witness:
  "resolve_sexo ''MALE'' = ''hombre''
   \<and> resolve_sexo ''Mujer'' = ''mujer''
   \<and> resolve_sexo ''3'' = ''otro''
   \<and> resolve_sexo ''HOMBRE'' = resolve_sexo ''hombre''
   \<and> sexo_of [(f_fecha, PStr ''01/01/2024'')] = Inr ''otro''
   \<and> sexo_of [(f_genero, PStr ''MALE'')] = Inr ''hombre''"
proof -
  have l1: "py_lower ''MALE'' = ''male''" by code_simp
  have l2: "py_lower ''Mujer'' = ''mujer''" by code_simp
  have l3: "py_lower ''3'' = ''3''" by code_simp
  have l4: "py_lower ''HOMBRE'' = py_lower ''hombre''" by code_simp
  have g1: "map_of [(f_fecha, PStr ''01/01/2024'')] f_genero = None"
    by (simp add: f_fecha_def f_genero_def)
  have g2: "map_of [(f_genero, PStr ''MALE'')] f_genero = Some (PStr ''MALE'')" by simp
  from sexo_resolution [of "''MALE''" "''MALE''" "[(f_genero, PStr ''MALE'')]"] l1 g2
  have a: "resolve_sexo ''MALE'' = ''hombre''" "sexo_of [(f_genero, PStr ''MALE'')] = Inr (resolve_sexo ''MALE'')"
    by simp_all
  from sexo_resolution [of "''Mujer''" "''Mujer''" "[(f_fecha, PStr ''01/01/2024'')]"] l2 g1
  have b: "resolve_sexo ''Mujer'' = ''mujer''" "sexo_of [(f_fecha, PStr ''01/01/2024'')] = Inr ''otro''"
    by simp_all
  from sexo_resolution [of "''3''" "''3''" "[]"] l3
  have c: "resolve_sexo ''3'' = ''otro''" by simp
  from sexo_resolution [of "''HOMBRE''" "''hombre''" "[]"] l4
  have d: "resolve_sexo ''HOMBRE'' = resolve_sexo ''hombre''" by blast
  from a b c d show ?thesis by simp
qed

lemma digits_value_snoc: "digits_value (xs @ [c]) = 10 * digits_value xs + int (digit_val c)"
  by (simp add: digits_value_def)

lemma digit_char:
  assumes "0 \<le> d" "d < 10"
  shows "is_digit (char_of (48 + nat d))" and "int (digit_val (char_of (48 + nat d))) = d"
proof -
  have "(48 + nat d) mod 256 = 48 + nat d" using assms by simp
  then have "(of_char (char_of (48 + nat d)) :: nat) = 48 + nat d" by simp
  then show "is_digit (char_of (48 + nat d))" and "int (digit_val (char_of (48 + nat d))) = d"
    using assms by (simp_all add: is_digit_def digit_val_def)
qed

lemma show_digits_props:
  "0 \<le> n \<Longrightarrow> list_all is_digit (show_digits n) \<and> show_digits n \<noteq> [] \<and> digits_value (show_digits n) = n"
proof (induction n rule: show_digits.induct)
  case (1 n)
  show ?case
  proof (cases "n < 10")
    case True
    then have s: "show_digits n = [char_of (48 + nat n)]"
      by (subst show_digits.simps) simp
    show ?thesis
      unfolding s using digit_char [OF "1.prems" True] by (simp add: digits_value_def)
  next
    case False
    then have s: "show_digits n = show_digits (n div 10) @ [char_of (48 + nat (n mod 10))]"
      by (subst show_digits.simps) simp
    have ih: "list_all is_digit (show_digits (n div 10)) \<and> show_digits (n div 10) \<noteq> []
        \<and> digits_value (show_digits (n div 10)) = n div 10"
      using "1.IH" [OF False] "1.prems" by simp
    have d: "is_digit (char_of (48 + nat (n mod 10)))"
      "int (digit_val (char_of (48 + nat (n mod 10)))) = n mod 10"
      using digit_char [of "n mod 10"] by simp_all
    show ?thesis
      unfolding s using ih d by (simp add: digits_value_snoc)
  qed
qed

lemma parse_decimal_fixed:
  assumes "list_all is_digit ds" "ds \<noteq> []" "is_digit c"
  shows "parse_decimal (ds @ ''.'' @ [c]) = Some (of_int (digits_value (ds @ [c])) / 10)"
proof -
  have nd: "\<not> is_digit CHR ''.''" by (simp add: is_digit_def)
  have all: "\<And>x. x \<in> set ds \<Longrightarrow> is_digit x" using assms(1) by (simp add: list_all_iff)
  have t: "takeWhile is_digit (ds @ ''.'' @ [c]) = ds"
    using all nd by (simp add: takeWhile_append2)
  have d: "dropWhile is_digit (ds @ ''.'' @ [c]) = ''.'' @ [c]"
    using all nd by (simp add: dropWhile_append2)
  show ?thesis
    unfolding parse_decimal_def t d using assms(2,3)
    by (simp add: pow10_def)
qed

lemma round_half_even_cases:
  "round_half_even x = \<lfloor>x\<rfloor> \<and> x - of_int \<lfloor>x\<rfloor> \<le> 1 / 2
   \<or> round_half_even x = \<lfloor>x\<rfloor> + 1 \<and> 1 / 2 \<le> x - of_int \<lfloor>x\<rfloor>"
  unfolding round_half_even_def Let_def by (simp add: not_less)

lemma round_half_even_nonneg:
  assumes "0 \<le> x"
  shows "0 \<le> round_half_even x"
proof -
  have "0 \<le> \<lfloor>x\<rfloor>" using assms by simp
  then show ?thesis using round_half_even_cases [of x] by linarith
qed

lemma round_half_even_near: "\<bar>of_int (round_half_even x) - x\<bar> \<le> 1 / 2"
proof -
  have b: "of_int \<lfloor>x\<rfloor> \<le> x" "x < of_int \<lfloor>x\<rfloor> + 1" by linarith+
  from round_half_even_cases [of x] show ?thesis
  proof
    assume a: "round_half_even x = \<lfloor>x\<rfloor> \<and> x - of_int \<lfloor>x\<rfloor> \<le> 1 / 2"
    then have "of_int (round_half_even x) - x = of_int \<lfloor>x\<rfloor> - x" by simp
    with a b show ?thesis by linarith
  next
    assume a: "round_half_even x = \<lfloor>x\<rfloor> + 1 \<and> 1 / 2 \<le> x - of_int \<lfloor>x\<rfloor>"
    then have "of_int (round_half_even x) - x = of_int \<lfloor>x\<rfloor> + 1 - x" by simp
    with a b show ?thesis by linarith
  qed
qed

lemma format_plus_1f_finite:
  "hd (format_plus_1f (Finite r)) = (if r < 0 then CHR ''-'' else CHR ''+'')"
  "parse_decimal (tl (format_plus_1f (Finite r))) = Some (of_int (round_half_even (\<bar>r\<bar> * 10)) / 10)"
  "\<bar>of_int (round_half_even (\<bar>r\<bar> * 10)) / 10 - \<bar>r\<bar>\<bar> \<le> 1 / 20"
proof -
  let ?n = "round_half_even (\<bar>r\<bar> * 10)"
  have n: "0 \<le> ?n" by (rule round_half_even_nonneg) simp
  show "hd (format_plus_1f (Finite r)) = (if r < 0 then CHR ''-'' else CHR ''+'')"
    by (simp add: Let_def)
  have tl: "tl (format_plus_1f (Finite r)) = show_digits (?n div 10) @ ''.'' @ show_digits (?n mod 10)"
    by (simp add: Let_def)
  have m: "show_digits (?n mod 10) = [char_of (48 + nat (?n mod 10))]"
    by (subst show_digits.simps) simp
  have p: "list_all is_digit (show_digits (?n div 10))" "show_digits (?n div 10) \<noteq> []"
    "digits_value (show_digits (?n div 10)) = ?n div 10"
    using show_digits_props [of "?n div 10"] n by simp_all
  have d: "is_digit (char_of (48 + nat (?n mod 10)))"
    "int (digit_val (char_of (48 + nat (?n mod 10)))) = ?n mod 10"
    using digit_char [of "?n mod 10"] by simp_all
  have "parse_decimal (tl (format_plus_1f (Finite r))) =
          Some (of_int (digits_value (show_digits (?n div 10) @ [char_of (48 + nat (?n mod 10))])) / 10)"
    unfolding tl m using parse_decimal_fixed [OF p(1) p(2) d(1)] by simp
  also have "digits_value (show_digits (?n div 10) @ [char_of (48 + nat (?n mod 10))]) = ?n"
    by (simp add: digits_value_snoc p(3) d(2))
  finally show "parse_decimal (tl (format_plus_1f (Finite r))) = Some (of_int ?n / 10)" .
  have "\<bar>of_int ?n - \<bar>r\<bar> * 10\<bar> \<le> 1 / 2" by (rule round_half_even_near)
  moreover have "of_int ?n / 10 - \<bar>r\<bar> = (of_int ?n - \<bar>r\<bar> * 10) / 10" by simp
  ultimately show "\<bar>of_int ?n / 10 - \<bar>r\<bar>\<bar> \<le> 1 / 20"
    by (simp only: abs_divide) simp
qed

lemma one_tenth: "float_of_decimal (1 / 10) = Finite (3602879701896397 / 36028797018963968)"
  by code_simp

lemma format_plus_1f_sign: "hd (format_plus_1f d) \<in> {CHR ''+'', CHR ''-''}"
  by (cases d) (simp_all add: Let_def)

lemma sample_delta:
  "fsub (Finite (7093169413108531 / 281474976710656)) (Finite 24) =
     Finite (337769972052787 / 281474976710656)"
  "format_plus_1f (Finite (337769972052787 / 281474976710656)) = ''+1.2''"
  "fsub (Finite (3602879701896397 / 36028797018963968)) (Finite 0) =
     Finite (3602879701896397 / 36028797018963968)"
  "format_plus_1f (Finite (3602879701896397 / 36028797018963968)) = ''+0.1''"
  "float_without_percent ''0'' = Some (Finite 0)"
  "float_without_percent ''0.1'' = Some (Finite (3602879701896397 / 36028797018963968))"
  by code_simp+

lemma comparison_sites_present:
  assumes "map_of prev_m field \<noteq> None \<and> map_of last_m field \<noteq> None
     \<and> float_without_percent (py_str_opt (map_of prev_m field)) = Some a
     \<and> float_without_percent (py_str_opt (map_of last_m field)) = Some b"
  shows "comparison_chart_data prev_m last_m field units =
        Some \<lparr>chart_values = (a, b), chart_diff = fsub b a,
               chart_diff_text = ''Diferencia: '' @ format_plus_1f (fsub b a) @ units,
               chart_diff_shown = fgt (fabs (fsub b a)) (float_of_decimal (1 / 10))\<rparr>"
    and "comparison_diff prev_m last_m field unit =
          Some \<lparr>diff = fsub b a, diff_str = format_plus_1f (fsub b a) @ unit,
                 diff_color =
                   (if flt (fabs (fsub b a)) (float_of_decimal (1 / 10)) then ''gray''
                    else if fgt (fsub b a) (Finite 0) then ''red''
                    else ''green'')\<rparr>"
  using assms
  by (auto simp: comparison_chart_data_def comparison_diff_def float_without_percent_def Let_def)

text \<open>
  Claim C3, as amended. When both measurements have the field and both values convert
  to numbers \<open>a\<close> (previous) and \<open>b\<close> (current), the chart and the table compute the
  difference \<open>b - a\<close> in floating point (for distinct finite numbers, the exact difference
  rounded) and format it with \<open>+.1f\<close>: the text starts with a minus sign when the
  difference is negative and with a plus sign otherwise, and what follows reads back as
  the absolute difference rounded to one decimal, at most 0.05 away from it. The two
  sites test the size of the difference differently. The chart hands its values to the
  drawing, with the difference annotated exactly when its absolute value is greater than
  the number 0.1, and returns what the drawing returns, \<open>None\<close> if the drawing raises. The
  table colours the difference gray exactly when its absolute value is smaller than that
  number, and otherwise red when the difference is positive and green when it is not.
  When either measurement lacks the field, or a value does not convert, the chart returns
  \<open>None\<close> and the table has no difference.
\<close>

theorem comparison_delta:
  "(map_of prev_m field \<noteq> None \<and> map_of last_m field \<noteq> None
     \<and> float_without_percent (py_str_opt (map_of prev_m field)) = Some a
     \<and> float_without_percent (py_str_opt (map_of last_m field)) = Some b \<longrightarrow>
      comparison_chart_data prev_m last_m field units =
        Some \<lparr>chart_values = (a, b), chart_diff = fsub b a,
               chart_diff_text = ''Diferencia: '' @ format_plus_1f (fsub b a) @ units,
               chart_diff_shown = fgt (fabs (fsub b a)) (float_of_decimal (1 / 10))\<rparr>
      \<and> plot_comparison_chart draw prev_m last_m field title units =
          draw title (get_fecha_hora prev_m, get_fecha_hora last_m)
            \<lparr>chart_values = (a, b), chart_diff = fsub b a,
             chart_diff_text = ''Diferencia: '' @ format_plus_1f (fsub b a) @ units,
             chart_diff_shown = fgt (fabs (fsub b a)) (float_of_decimal (1 / 10))\<rparr>
      \<and> comparison_diff prev_m last_m field unit =
          Some \<lparr>diff = fsub b a, diff_str = format_plus_1f (fsub b a) @ unit,
                 diff_color =
                   (if flt (fabs (fsub b a)) (float_of_decimal (1 / 10)) then ''gray''
                    else if fgt (fsub b a) (Finite 0) then ''red''
                    else ''green'')\<rparr>)
   \<and> (map_of prev_m field = None \<or> map_of last_m field = None
       \<or> float_without_percent (py_str_opt (map_of prev_m field)) = None
       \<or> float_without_percent (py_str_opt (map_of last_m field)) = None \<longrightarrow>
       comparison_chart_data prev_m last_m field units = None
       \<and> plot_comparison_chart draw prev_m last_m field title units = None
       \<and> comparison_diff prev_m last_m field unit = None)
   \<and> hd (format_plus_1f d) \<in> {CHR ''+'', CHR ''-''}
   \<and> hd (format_plus_1f (Finite r)) = (if r < 0 then CHR ''-'' else CHR ''+'')
   \<and> parse_decimal (tl (format_plus_1f (Finite r))) =
       Some (of_int (round_half_even (\<bar>r\<bar> * 10)) / 10)
   \<and> \<bar>of_int (round_half_even (\<bar>r\<bar> * 10)) / 10 - \<bar>r\<bar>\<bar> \<le> 1 / 20
   \<and> (x \<noteq> y \<longrightarrow> fsub (Finite y) (Finite x) = round_double (y - x))
   \<and> (fgt (fabs (Finite r)) (float_of_decimal (1 / 10)) \<longleftrightarrow>
        3602879701896397 / 36028797018963968 < \<bar>r\<bar>)
   \<and> (flt (fabs (Finite r)) (float_of_decimal (1 / 10)) \<longleftrightarrow>
        \<bar>r\<bar> < 3602879701896397 / 36028797018963968)"
proof -
  let ?c = "\<lparr>chart_values = (a, b), chart_diff = fsub b a,
             chart_diff_text = ''Diferencia: '' @ format_plus_1f (fsub b a) @ units,
             chart_diff_shown = fgt (fabs (fsub b a)) (float_of_decimal (1 / 10))\<rparr>"
  have present: "comparison_chart_data prev_m last_m field units = Some ?c
      \<and> plot_comparison_chart draw prev_m last_m field title units =
          draw title (get_fecha_hora prev_m, get_fecha_hora last_m) ?c
      \<and> comparison_diff prev_m last_m field unit =
          Some \<lparr>diff = fsub b a, diff_str = format_plus_1f (fsub b a) @ unit,
                 diff_color =
                   (if flt (fabs (fsub b a)) (float_of_decimal (1 / 10)) then ''gray''
                    else if fgt (fsub b a) (Finite 0) then ''red''
                    else ''green'')\<rparr>"
    if h: "map_of prev_m field \<noteq> None \<and> map_of last_m field \<noteq> None
     \<and> float_without_percent (py_str_opt (map_of prev_m field)) = Some a
     \<and> float_without_percent (py_str_opt (map_of last_m field)) = Some b"
    using comparison_sites_present [OF h]
    by (simp add: plot_comparison_chart_def)
  have absent: "comparison_chart_data prev_m last_m field units = None
       \<and> plot_comparison_chart draw prev_m last_m field title units = None
       \<and> comparison_diff prev_m last_m field unit = None"
    if h: "map_of prev_m field = None \<or> map_of last_m field = None
       \<or> float_without_percent (py_str_opt (map_of prev_m field)) = None
       \<or> float_without_percent (py_str_opt (map_of last_m field)) = None"
  proof -
    have data: "comparison_chart_data prev_m last_m field units = None"
      using h
      by (auto simp: comparison_chart_data_def float_without_percent_def Let_def
          split: option.splits)
    have "comparison_diff prev_m last_m field unit = None"
      using h
      by (auto simp: comparison_diff_def float_without_percent_def Let_def split: option.splits)
    with data show ?thesis
      by (simp add: plot_comparison_chart_def)
  qed
  have sub: "fsub (Finite y) (Finite x) = round_double (y - x)" if "x \<noteq> y"
    using that by (simp add: Let_def)
  have shown: "fgt (fabs (Finite r)) (float_of_decimal (1 / 10)) \<longleftrightarrow>
        3602879701896397 / 36028797018963968 < \<bar>r\<bar>"
    by (simp add: one_tenth fgt_def flt_def)
  have gray: "flt (fabs (Finite r)) (float_of_decimal (1 / 10)) \<longleftrightarrow>
        \<bar>r\<bar> < 3602879701896397 / 36028797018963968"
    by (simp add: one_tenth flt_def)
  from present absent sub shown gray format_plus_1f_sign [of d] format_plus_1f_finite [of r]
  show ?thesis
    by blast
qed

theorem comparison_delta_witness:
  "plot_comparison_chart (\<lambda>title labels c. Some ''chart.png'')
     [(f_imc, PStr ''24.0'')] [(f_imc, PStr ''25.2'')] f_imc ''IMC'' '' kg/m2'' = Some ''chart.png''
   \<and> comparison_chart_data [(f_imc, PStr ''24.0'')] [(f_imc, PStr ''25.2'')] f_imc '' kg/m2'' =
     Some \<lparr>chart_values = (Finite 24, Finite (7093169413108531 / 281474976710656)),
            chart_diff = Finite (337769972052787 / 281474976710656),
            chart_diff_text = ''Diferencia: +1.2 kg/m2'',
            chart_diff_shown = True\<rparr>
   \<and> comparison_diff [(f_imc, PStr ''24.0'')] [(f_imc, PStr ''25.2'')] f_imc '''' =
       Some \<lparr>diff = Finite (337769972052787 / 281474976710656), diff_str = ''+1.2'',
              diff_color = ''red''\<rparr>
   \<and> comparison_diff [(f_imc, PStr ''24.0'')] [(f_visceral, PStr ''9''), (f_imc, PStr ''25.2'')]
       f_visceral '''' = None
   \<and> plot_comparison_chart (\<lambda>title labels c. Some ''chart.png'')
       [(f_imc, PStr ''24.0'')] [(f_visceral, PStr ''9''), (f_imc, PStr ''25.2'')]
       f_visceral ''V'' '''' = None"
proof -
  let ?p = "[(f_imc, PStr ''24.0'')]" and ?l = "[(f_imc, PStr ''25.2'')]"
  let ?l2 = "[(f_visceral, PStr ''9''), (f_imc, PStr ''25.2'')]"
  let ?b = "Finite (7093169413108531 / 281474976710656)"
  let ?d = "337769972052787 / 281474976710656 :: rat"
  let ?draw = "\<lambda>(title :: string) (labels :: string \<times> string) (c :: comparison_chart). Some ''chart.png''"
  have pre: "map_of ?p f_imc \<noteq> None \<and> map_of ?l f_imc \<noteq> None
     \<and> float_without_percent (py_str_opt (map_of ?p f_imc)) = Some (Finite 24)
     \<and> float_without_percent (py_str_opt (map_of ?l f_imc)) = Some ?b"
    by (simp add: py_str_opt_def sample_numbers)
  have lacks: "map_of ?p f_visceral = None"
    by (simp add: f_imc_def f_visceral_def)
  have big: "3602879701896397 / 36028797018963968 < \<bar>?d\<bar>" by simp
  note i1 = comparison_delta [of ?p f_imc ?l "Finite 24" ?b "'' kg/m2''" ?draw "''IMC''" "''''" NaN ?d 0 0]
  note i2 = comparison_delta [of ?p f_visceral ?l2 NaN NaN "''''" ?draw "''V''" "''''" NaN 0 0 0]
  from i1 big have shown: "fgt (fabs (Finite ?d)) (float_of_decimal (1 / 10))"
    and notgray: "\<not> flt (fabs (Finite ?d)) (float_of_decimal (1 / 10))"
    by simp_all
  have pos: "fgt (Finite ?d) (Finite 0)" by (simp add: fgt_def flt_def)
  from i1 pre have
    a: "comparison_chart_data ?p ?l f_imc '' kg/m2'' =
        Some \<lparr>chart_values = (Finite 24, ?b), chart_diff = fsub ?b (Finite 24),
               chart_diff_text = ''Diferencia: '' @ format_plus_1f (fsub ?b (Finite 24)) @ '' kg/m2'',
               chart_diff_shown = fgt (fabs (fsub ?b (Finite 24))) (float_of_decimal (1 / 10))\<rparr>"
    and b: "plot_comparison_chart ?draw ?p ?l f_imc ''IMC'' '' kg/m2'' = Some ''chart.png''"
    and c: "comparison_diff ?p ?l f_imc '''' =
          Some \<lparr>diff = fsub ?b (Finite 24), diff_str = format_plus_1f (fsub ?b (Finite 24)) @ '''',
                 diff_color =
                   (if flt (fabs (fsub ?b (Finite 24))) (float_of_decimal (1 / 10)) then ''gray''
                    else if fgt (fsub ?b (Finite 24)) (Finite 0) then ''red''
                    else ''green'')\<rparr>"
    by blast+
  from a shown have a': "comparison_chart_data ?p ?l f_imc '' kg/m2'' =
     Some \<lparr>chart_values = (Finite 24, ?b), chart_diff = Finite ?d,
            chart_diff_text = ''Diferencia: +1.2 kg/m2'', chart_diff_shown = True\<rparr>"
    unfolding sample_delta by simp
  from c shown notgray pos have c': "comparison_diff ?p ?l f_imc '''' =
       Some \<lparr>diff = Finite ?d, diff_str = ''+1.2'', diff_color = ''red''\<rparr>"
    unfolding sample_delta by simp
  from i2 lacks have "comparison_diff ?p ?l2 f_visceral '''' = None"
    and "plot_comparison_chart ?draw ?p ?l2 f_visceral ''V'' '''' = None"
    by blast+
  with a' b c' show ?thesis by blast
qed

text \<open>
  The claim as it was written has one flag, true exactly when the absolute difference
  is greater than 0.1. For the values 0 and 0.1 the difference is the number 0.1 itself:
  the chart does not annotate it, and the table colours it red, as a change.
\<close>

theorem table_colours_one_tenth:
  "comparison_diff [(f_imc, PStr ''0'')] [(f_imc, PStr ''0.1'')] f_imc '''' =
     Some \<lparr>diff = Finite (3602879701896397 / 36028797018963968), diff_str = ''+0.1'',
            diff_color = ''red''\<rparr>
   \<and> map_option chart_diff_shown
       (comparison_chart_data [(f_imc, PStr ''0'')] [(f_imc, PStr ''0.1'')] f_imc '''') =
       Some False
   \<and> \<not> fgt (fabs (Finite (3602879701896397 / 36028797018963968))) (float_of_decimal (1 / 10))"
proof -
  let ?t = "3602879701896397 / 36028797018963968 :: rat"
  let ?p = "[(f_imc, PStr ''0'')]" and ?l = "[(f_imc, PStr ''0.1'')]"
  have pre: "map_of ?p f_imc \<noteq> None \<and> map_of ?l f_imc \<noteq> None
     \<and> float_without_percent (py_str_opt (map_of ?p f_imc)) = Some (Finite 0)
     \<and> float_without_percent (py_str_opt (map_of ?l f_imc)) = Some (Finite ?t)"
    by (simp add: py_str_opt_def sample_delta)
  have f: "\<not> fgt (fabs (Finite ?t)) (float_of_decimal (1 / 10))"
    "\<not> flt (fabs (Finite ?t)) (float_of_decimal (1 / 10))"
    "fgt (Finite ?t) (Finite 0)"
    by (simp_all add: one_tenth fgt_def flt_def)
  note s = comparison_sites_present [OF pre]
  from s(2) f have "comparison_diff ?p ?l f_imc [] =
     Some \<lparr>diff = Finite ?t, diff_str = ''+0.1'', diff_color = ''red''\<rparr>"
    unfolding sample_delta by simp
  moreover from s(1) f have "map_option chart_diff_shown (comparison_chart_data ?p ?l f_imc []) =
       Some False"
    unfolding sample_delta by simp
  ultimately show ?thesis using f by blast
qed

section \<open>Properties of the body fat bar\<close>

lemma grasa_figure_hombre:
  "colored_bar_figure v (grasa_ranges ''hombre'') grasa_colors grasa_labels grasa_title ''%'' =
     Some \<lparr>bars =
            [\<lparr>bar_left = 0, bar_width = 8, bar_color = ''#b3c6ff'', bar_label = ''Bajo'',
              bar_label_x = 4\<rparr>,
             \<lparr>bar_left = 8, bar_width = 12, bar_color = ''#b6fcb6'',
              bar_label = [O_acute] @ ''ptimo'', bar_label_x = 14\<rparr>,
             \<lparr>bar_left = 20, bar_width = 5, bar_color = ''#ffe066'', bar_label = ''Alto'',
              bar_label_x = 45 / 2\<rparr>,
             \<lparr>bar_left = 25, bar_width = 20, bar_color = ''#ff9999'', bar_label = ''Muy alto'',
              bar_label_x = 35\<rparr>],
          value_line = v, value_text = format_1f v @ ''%'', bar_title = grasa_title,
          xlim = (0, 45)\<rparr>"
  by (simp add: colored_bar_figure_def grasa_ranges_def grasa_colors_def grasa_labels_def)

lemma classify_hombre:
  "spec_classify (grasa_ranges ''hombre'') grasa_labels x =
     (if 0 \<le> x \<and> x < 8 then Some ''Bajo''
      else if 8 \<le> x \<and> x < 20 then Some ([O_acute] @ ''ptimo'')
      else if 20 \<le> x \<and> x < 25 then Some ''Alto''
      else if 25 \<le> x \<and> x < 45 then Some ''Muy alto''
      else None)"
  by (simp add: spec_classify_def grasa_ranges_def grasa_labels_def)

text \<open>
  Claim C7, as amended. For a male, the body fat ranges are (0, 8), (8, 20), (20, 25) and
  (25, 45), labelled Bajo, Optimo, Alto and Muy alto, each starting where the one before
  ends; read closed on the left and open on the right, they put a value from 0 up to 8
  in Bajo, from 8 up to 20 in Optimo, from 20 up to 25 in Alto and from 25 up to 45 in
  Muy alto. The code selects no bucket: for every value it hands the four ranges with
  their labels to the drawing, and the value only as the place of the marker line and as
  the text below it; the result is what the drawing gives.
\<close>

theorem grasa_bar_hombre:
  "grasa_ranges ''hombre'' = [(0, 8), (8, 20), (20, 25), (25, 45)]
   \<and> grasa_labels = [''Bajo'', [O_acute] @ ''ptimo'', ''Alto'', ''Muy alto'']
   \<and> spec_classify (grasa_ranges ''hombre'') grasa_labels x =
       (if 0 \<le> x \<and> x < 8 then Some ''Bajo''
        else if 8 \<le> x \<and> x < 20 then Some ([O_acute] @ ''ptimo'')
        else if 20 \<le> x \<and> x < 25 then Some ''Alto''
        else if 25 \<le> x \<and> x < 45 then Some ''Muy alto''
        else None)
   \<and> colored_bar_figure v (grasa_ranges ''hombre'') grasa_colors grasa_labels grasa_title ''%'' =
       Some \<lparr>bars =
            [\<lparr>bar_left = 0, bar_width = 8, bar_color = ''#b3c6ff'', bar_label = ''Bajo'',
              bar_label_x = 4\<rparr>,
             \<lparr>bar_left = 8, bar_width = 12, bar_color = ''#b6fcb6'',
              bar_label = [O_acute] @ ''ptimo'', bar_label_x = 14\<rparr>,
             \<lparr>bar_left = 20, bar_width = 5, bar_color = ''#ffe066'', bar_label = ''Alto'',
              bar_label_x = 45 / 2\<rparr>,
             \<lparr>bar_left = 25, bar_width = 20, bar_color = ''#ff9999'', bar_label = ''Muy alto'',
              bar_label_x = 35\<rparr>],
          value_line = v, value_text = format_1f v @ ''%'', bar_title = grasa_title,
          xlim = (0, 45)\<rparr>
   \<and> (grasa_value m = Some v \<longrightarrow>
        (\<exists>fig. colored_bar_figure v (grasa_ranges ''hombre'') grasa_colors grasa_labels
                 grasa_title ''%'' = Some fig
           \<and> map bar_label (bars fig) = grasa_labels
           \<and> grasa_bar draw m ''hombre'' =
               Some (case draw fig of None \<Rightarrow> Inl PlottingError | Some name \<Rightarrow> Inr name)))"
proof -
  have tab: "grasa_ranges ''hombre'' = [(0, 8), (8, 20), (20, 25), (25, 45)]"
    by (simp add: grasa_ranges_def)
  have lab: "grasa_labels = [''Bajo'', [O_acute] @ ''ptimo'', ''Alto'', ''Muy alto'']"
    by (simp add: grasa_labels_def)
  have bar: "\<exists>fig. colored_bar_figure v (grasa_ranges ''hombre'') grasa_colors grasa_labels
                 grasa_title ''%'' = Some fig
           \<and> map bar_label (bars fig) = grasa_labels
           \<and> grasa_bar draw m ''hombre'' =
               Some (case draw fig of None \<Rightarrow> Inl PlottingError | Some name \<Rightarrow> Inr name)"
    if gv: "grasa_value m = Some v"
  proof -
    obtain fig where f: "colored_bar_figure v (grasa_ranges ''hombre'') grasa_colors grasa_labels
        grasa_title ''%'' = Some fig"
      and l: "map bar_label (bars fig) = [''Bajo'', [O_acute] @ ''ptimo'', ''Alto'', ''Muy alto'']"
      using grasa_figure_hombre [of v] by simp
    have l': "map bar_label (bars fig) = grasa_labels"
      using l by (simp add: grasa_labels_def)
    have g: "grasa_bar draw m ''hombre'' =
               Some (case draw fig of None \<Rightarrow> Inl PlottingError | Some name \<Rightarrow> Inr name)"
      by (simp add: grasa_bar_def plot_colored_bar_def gv f)
    show ?thesis
      by (intro exI [of _ fig] conjI f l' g)
  qed
  show ?thesis
  proof (intro conjI impI)
    show "grasa_ranges ''hombre'' = [(0, 8), (8, 20), (20, 25), (25, 45)]"
      by (rule tab)
    show "grasa_labels = [''Bajo'', [O_acute] @ ''ptimo'', ''Alto'', ''Muy alto'']"
      by (rule lab)
    show "spec_classify (grasa_ranges ''hombre'') grasa_labels x =
       (if 0 \<le> x \<and> x < 8 then Some ''Bajo''
        else if 8 \<le> x \<and> x < 20 then Some ([O_acute] @ ''ptimo'')
        else if 20 \<le> x \<and> x < 25 then Some ''Alto''
        else if 25 \<le> x \<and> x < 45 then Some ''Muy alto''
        else None)"
      by (rule classify_hombre)
    show "colored_bar_figure v (grasa_ranges ''hombre'') grasa_colors grasa_labels grasa_title ''%'' =
       Some \<lparr>bars =
            [\<lparr>bar_left = 0, bar_width = 8, bar_color = ''#b3c6ff'', bar_label = ''Bajo'',
              bar_label_x = 4\<rparr>,
             \<lparr>bar_left = 8, bar_width = 12, bar_color = ''#b6fcb6'',
              bar_label = [O_acute] @ ''ptimo'', bar_label_x = 14\<rparr>,
             \<lparr>bar_left = 20, bar_width = 5, bar_color = ''#ffe066'', bar_label = ''Alto'',
              bar_label_x = 45 / 2\<rparr>,
             \<lparr>bar_left = 25, bar_width = 20, bar_color = ''#ff9999'', bar_label = ''Muy alto'',
              bar_label_x = 35\<rparr>],
          value_line = v, value_text = format_1f v @ ''%'', bar_title = grasa_title,
          xlim = (0, 45)\<rparr>"
      by (rule grasa_figure_hombre)
  next
    assume "grasa_value m = Some v"
    then show "\<exists>fig. colored_bar_figure v (grasa_ranges ''hombre'') grasa_colors grasa_labels
                 grasa_title ''%'' = Some fig
           \<and> map bar_label (bars fig) = grasa_labels
           \<and> grasa_bar draw m ''hombre'' =
               Some (case draw fig of None \<Rightarrow> Inl PlottingError | Some name \<Rightarrow> Inr name)"
      by (rule bar)
  qed
qed

lemma sample_grasa_row:
  "grasa_value (decode_row [''GE'', ''1'', ''FW'', ''7.999''] ''DATA1.CSV'' 0) =
     Some (Finite (9006073354834149 / 1125899906842624))"
  "grasa_value (decode_row [''GE'', ''1'', ''FW'', ''8.0''] ''DATA1.CSV'' 0) = Some (Finite 8)"
  "sexo_of (decode_row [''GE'', ''1'', ''FW'', ''8.0''] ''DATA1.CSV'' 0) = Inr ''hombre''"
  by code_simp+

theorem grasa_bar_hombre_witness:
  "grasa_bar (\<lambda>fig. Some ''bar.png'')
     (decode_row [''GE'', ''1'', ''FW'', ''7.999''] ''DATA1.CSV'' 0) ''hombre'' = Some (Inr ''bar.png'')
   \<and> grasa_bar (\<lambda>fig. None)
     (decode_row [''GE'', ''1'', ''FW'', ''7.999''] ''DATA1.CSV'' 0) ''hombre'' = Some (Inl PlottingError)
   \<and> spec_classify (grasa_ranges ''hombre'') grasa_labels (7999 / 1000) = Some ''Bajo''
   \<and> spec_classify (grasa_ranges ''hombre'') grasa_labels 8 = Some ([O_acute] @ ''ptimo'')"
proof -
  let ?v = "Finite (9006073354834149 / 1125899906842624)"
  let ?m = "decode_row [''GE'', ''1'', ''FW'', ''7.999''] ''DATA1.CSV'' 0"
  let ?ok = "\<lambda>fig :: colored_bar. Some ''bar.png''" and ?bad = "\<lambda>fig :: colored_bar. None :: string option"
  from grasa_bar_hombre [of "7999 / 1000" ?v ?m ?ok] sample_grasa_row(1)
  have a: "grasa_bar ?ok ?m ''hombre'' = Some (Inr ''bar.png'')"
    and c: "spec_classify (grasa_ranges ''hombre'') grasa_labels (7999 / 1000) = Some ''Bajo''"
    by auto
  from grasa_bar_hombre [of 8 ?v ?m ?bad] sample_grasa_row(1)
  have b: "grasa_bar ?bad ?m ''hombre'' = Some (Inl PlottingError)"
    and d: "spec_classify (grasa_ranges ''hombre'') grasa_labels 8 = Some ([O_acute] @ ''ptimo'')"
    by auto
  from a b c d show ?thesis by blast
qed

text \<open>
  The claim as it was written has the code classify 8.0 as Optimo and not as Bajo, and
  7.999 as Bajo. For a male with 8.0 the code hands to the drawing the four ranges with
  the labels Bajo, Optimo, Alto and Muy alto, the same bars as for 7.999: the label Bajo is
  part of its output for 8.0, and no label is chosen for either value.
\<close>

theorem no_bucket_selected:
  "sexo_of (decode_row [''GE'', ''1'', ''FW'', ''8.0''] ''DATA1.CSV'' 0) = Inr ''hombre''
   \<and> grasa_value (decode_row [''GE'', ''1'', ''FW'', ''8.0''] ''DATA1.CSV'' 0) = Some (Finite 8)
   \<and> map_option (\<lambda>fig. map bar_label (bars fig))
       (colored_bar_figure (Finite 8) (grasa_ranges ''hombre'') grasa_colors grasa_labels
          grasa_title ''%'') =
       Some [''Bajo'', [O_acute] @ ''ptimo'', ''Alto'', ''Muy alto'']
   \<and> map_option bars
       (colored_bar_figure (Finite 8) (grasa_ranges ''hombre'') grasa_colors grasa_labels
          grasa_title ''%'') =
     map_option bars
       (colored_bar_figure (Finite (9006073354834149 / 1125899906842624)) (grasa_ranges ''hombre'')
          grasa_colors grasa_labels grasa_title ''%'')"
  by (simp add: sample_grasa_row grasa_figure_hombre)

end
